theory Spec2Isabelle
  imports Complex_Main
begin

section \<open>Python values and exceptions\<close>

text \<open>
  The script \<^verbatim>\<open>.github/scripts/request_copilot_review.py\<close> resolves a pull request
  from the environment, starts the MCP helper as a subprocess and exchanges two JSON-RPC
  messages with it. Strings are lists of characters (code points below 256). The values
  that \<^verbatim>\<open>json.loads\<close> builds, and the values the script passes around, are
  \<open>json\<close>: Python's \<^verbatim>\<open>None\<close>, \<^verbatim>\<open>bool\<close>, \<^verbatim>\<open>int\<close>, \<^verbatim>\<open>float\<close>,
  \<^verbatim>\<open>str\<close>, \<^verbatim>\<open>list\<close> and \<^verbatim>\<open>dict\<close> (an association list, looked up by key).
\<close>

datatype pyfloat = Finite rat | Infinite | NaN

datatype json =
    JNull
  | JBool bool
  | JInt int
  | JFloat pyfloat
  | JStr string
  | JArr "json list"
  | JObj "(string \<times> json) list"

text \<open>
  The exceptions the script can meet. \<open>OSError\<close> stands for its subclasses too
  (a failed \<^verbatim>\<open>Popen\<close>, \<^verbatim>\<open>BrokenPipeError\<close>, \<^verbatim>\<open>IsADirectoryError\<close>).
\<close>

datatype exn =
    ValueError
  | TypeError
  | KeyError
  | AttributeError
  | JSONDecodeError
  | OverflowError
  | OSError

text \<open>Python's truth value of an object, as \<^verbatim>\<open>if not x\<close> tests it.\<close>

fun truthy :: "json \<Rightarrow> bool" where
  "truthy JNull = False"
| "truthy (JBool b) = b"
| "truthy (JInt n) = (n \<noteq> 0)"
| "truthy (JFloat (Finite r)) = (r \<noteq> 0)"
| "truthy (JFloat Infinite) = True"
| "truthy (JFloat NaN) = True"
| "truthy (JStr s) = (s \<noteq> [])"
| "truthy (JArr xs) = (xs \<noteq> [])"
| "truthy (JObj kvs) = (kvs \<noteq> [])"

fun starts_with :: "string \<Rightarrow> string \<Rightarrow> bool" where
  "starts_with [] s = True"
| "starts_with (a # as) [] = False"
| "starts_with (a # as) (b # bs) = (a = b \<and> starts_with as bs)"

fun substring :: "string \<Rightarrow> string \<Rightarrow> bool" where
  "substring k [] = (k = [])"
| "substring k (c # cs) = (starts_with k (c # cs) \<or> substring k cs)"

text \<open>
  \<^verbatim>\<open>k in v\<close> for a string \<open>k\<close>: key membership in a dict, element membership in a
  list, substring test in a string, and \<^verbatim>\<open>TypeError\<close> on a value that is not a
  container.
\<close>

fun py_in :: "string \<Rightarrow> json \<Rightarrow> exn + bool" where
  "py_in k (JObj kvs) = Inr (k \<in> set (map fst kvs))"
| "py_in k (JArr xs) = Inr (JStr k \<in> set xs)"
| "py_in k (JStr s) = Inr (substring k s)"
| "py_in k v = Inl TypeError"

text \<open>\<^verbatim>\<open>v[k]\<close> for a string \<open>k\<close>: only a dict can be indexed by a string.\<close>

fun py_getitem :: "json \<Rightarrow> string \<Rightarrow> exn + json" where
  "py_getitem (JObj kvs) k = (case map_of kvs k of None \<Rightarrow> Inl KeyError | Some v \<Rightarrow> Inr v)"
| "py_getitem v k = Inl TypeError"

text \<open>\<^verbatim>\<open>d.get(k, default)\<close> on a dict.\<close>

definition dict_get :: "(string \<times> json) list \<Rightarrow> string \<Rightarrow> json \<Rightarrow> json" where
  "dict_get kvs k dflt = (case map_of kvs k of None \<Rightarrow> dflt | Some v \<Rightarrow> v)"

subsection \<open>Integer conversion\<close>

text \<open>
  \<^verbatim>\<open>int(s)\<close> on a string: surrounding whitespace is dropped, one sign is allowed, and
  the rest is decimal digits, where single underscores may stand between digits. The
  whitespace that \<^verbatim>\<open>int\<close> drops is tab, line feed, vertical tab, form feed,
  carriage return and space, and of the other characters below 256 the next-line and the
  no-break space; the separators \<^verbatim>\<open>0x1C\<close> to \<^verbatim>\<open>0x1F\<close> are not dropped
  (\<^verbatim>\<open>int\<close> of the character \<^verbatim>\<open>0x1F\<close> before a digit raises). A string of more than \<open>max_str_digits\<close> digits is
  refused (the interpreter's default limit).
\<close>

definition py_space :: "char \<Rightarrow> bool" where
  "py_space c =
     (c \<in> set [CHR 0x09, CHR 0x0A, CHR 0x0B, CHR 0x0C, CHR 0x0D, CHR 0x20, CHR 0x85, CHR 0xA0])"

definition max_str_digits :: nat where
  "max_str_digits = 4300"

definition strip :: "string \<Rightarrow> string" where
  "strip s = rev (dropWhile py_space (rev (dropWhile py_space s)))"

definition is_digit :: "char \<Rightarrow> bool" where
  "is_digit c = (c \<in> set ''0123456789'')"

definition digit_val :: "char \<Rightarrow> int" where
  "digit_val c = int (of_char c) - 48"

text \<open>
  The body after the sign: it starts with a digit, each underscore is followed by a
  digit, and nothing else occurs. The accumulator is the value read so far.
\<close>

fun digits_from :: "int \<Rightarrow> string \<Rightarrow> int option" where
  "digits_from acc [] = Some acc"
| "digits_from acc (c # cs) =
     (if is_digit c then digits_from (10 * acc + digit_val c) cs
      else if c = CHR ''_'' then
        (case cs of
           [] \<Rightarrow> None
         | d # ds \<Rightarrow> if is_digit d then digits_from (10 * acc + digit_val d) ds else None)
      else None)"

definition unsigned_int :: "string \<Rightarrow> int option" where
  "unsigned_int s =
     (case s of
        [] \<Rightarrow> None
      | c # cs \<Rightarrow>
          if is_digit c \<and> length (filter is_digit s) \<le> max_str_digits then digits_from 0 s
          else None)"

definition int_of_str :: "string \<Rightarrow> int option" where
  "int_of_str s =
     (case strip s of
        [] \<Rightarrow> None
      | c # cs \<Rightarrow>
          if c = CHR ''-'' then map_option uminus (unsigned_int cs)
          else if c = CHR ''+'' then unsigned_int cs
          else unsigned_int (c # cs))"

text \<open>\<^verbatim>\<open>int(v)\<close> on any value the script can hold.\<close>

fun py_int :: "json \<Rightarrow> exn + int" where
  "py_int (JInt n) = Inr n"
| "py_int (JBool b) = Inr (if b then 1 else 0)"
| "py_int (JFloat (Finite r)) = Inr (if r < 0 then - \<lfloor>- r\<rfloor> else \<lfloor>r\<rfloor>)"
| "py_int (JFloat Infinite) = Inl OverflowError"
| "py_int (JFloat NaN) = Inl ValueError"
| "py_int (JStr s) = (case int_of_str s of None \<Rightarrow> Inl ValueError | Some n \<Rightarrow> Inr n)"
| "py_int v = Inl TypeError"

text \<open>\<^verbatim>\<open>s.split(sep)\<close> with a one-character separator: one more part than separators.\<close>

fun split_on :: "char \<Rightarrow> string \<Rightarrow> string list" where
  "split_on sep [] = [[]]"
| "split_on sep (c # cs) =
     (if c = sep then [] # split_on sep cs
      else (case split_on sep cs of
              [] \<Rightarrow> [[c]]
            | p # ps \<Rightarrow> (c # p) # ps))"

section \<open>The world the script runs in\<close>

text \<open>
  The helper process as the script sees it. \<open>spawn_ok\<close>: whether \<^verbatim>\<open>Popen\<close> succeeds.
  \<open>stdin_ok i\<close>: whether writing and flushing the request with id \<open>i\<close> succeeds.
  Its standard output is a pipe, given by what the reads of it deliver:
  \<open>stdout_lines\<close> are the successive lines as \<^verbatim>\<open>readline()\<close> returns them (in a
  run each is a non-empty text, ending in a line feed unless it is the last one before
  the end of the stream), each with the milliseconds the blocking read waits for it;
  after them comes either the end of the stream after some milliseconds (\<open>Closed\<close>)
  or nothing at all while the pipe stays open (\<open>Silent\<close>).
  \<open>exits_on_terminate\<close>: whether it exits within five seconds of \<^verbatim>\<open>terminate()\<close>.
\<close>

datatype pipe_end = Closed nat | Silent

type_synonym pipe = "(nat \<times> string) list \<times> pipe_end"

record helper =
  spawn_ok :: bool
  stdin_ok :: "nat \<Rightarrow> bool"
  stdout_lines :: "(nat \<times> string) list"
  stdout_end :: pipe_end
  exits_on_terminate :: bool

datatype fsentry = Regular string | Directory

text \<open>
  \<open>json_loads\<close> is the standard library's parser, \<open>None\<close> where it raises
  \<^verbatim>\<open>JSONDecodeError\<close>; the script only calls it, so it is a component of the world.
\<close>

record world =
  environ :: "string \<rightharpoonup> string"
  getcwd :: string
  files :: "string \<rightharpoonup> fsentry"
  json_loads :: "string \<Rightarrow> json option"
  server :: helper

text \<open>What the script prints, one constructor for each message.\<close>

datatype msg =
    MsgNoRepository
  | MsgNoPrNumber
  | MsgHeader string string int
  | MsgNoToken
  | MsgCheckingServer
  | MsgServerFound string
  | MsgServerMissing string
  | MsgSetupFailed
  | MsgStarting
  | MsgSendingInit
  | MsgInitDone string
  | MsgSendingReview string string int
  | MsgWaiting
  | MsgReceived string
  | MsgRpcErrorHead
  | MsgRpcErrorCode json
  | MsgRpcErrorMessage json
  | MsgSuccess json
  | MsgUnexpected json
  | MsgParseError string
  | MsgTimeout
  | MsgException exn
  | MsgNoPrInfo
  | MsgTarget string string int
  | MsgDone
  | MsgFailed
  | MsgHelp
  | MsgUsage

text \<open>
  The effects of a run, in order. \<open>ReadLine s\<close>: a \<^verbatim>\<open>readline()\<close> that returned
  \<open>s\<close> (empty at the end of the stream). \<open>Wait b\<close>: \<^verbatim>\<open>wait(timeout=5)\<close>, with
  \<open>b\<close> false when it raised \<^verbatim>\<open>TimeoutExpired\<close>.
\<close>

datatype event =
    EnvGet string
  | EnvCopy
  | PathExists string
  | OpenRead string
  | Print msg
  | Popen string string
  | Send json
  | ReadLine string
  | Sleep
  | Terminate
  | Wait bool
  | Kill

section \<open>Context Resolver: \<^verbatim>\<open>get_pull_request_info\<close>\<close>

text \<open>
  Lines 37 to 41: the number taken from the parsed event payload; \<open>pr_number\<close> is kept
  when neither branch assigns it.
\<close>

definition event_pr_number :: "json \<Rightarrow> json \<Rightarrow> exn + json" where
  "event_pr_number event_data pr_number =
     (case py_in ''pull_request'' event_data of
        Inl e \<Rightarrow> Inl e
      | Inr True \<Rightarrow>
          (case py_getitem event_data ''pull_request'' of
             Inl e \<Rightarrow> Inl e
           | Inr pr \<Rightarrow> py_getitem pr ''number'')
      | Inr False \<Rightarrow>
          (case py_in ''issue'' event_data of
             Inl e \<Rightarrow> Inl e
           | Inr False \<Rightarrow> Inr pr_number
           | Inr True \<Rightarrow>
               (case py_getitem event_data ''issue'' of
                  Inl e \<Rightarrow> Inl e
                | Inr issue \<Rightarrow>
                    (case py_in ''pull_request'' issue of
                       Inl e \<Rightarrow> Inl e
                     | Inr False \<Rightarrow> Inr pr_number
                     | Inr True \<Rightarrow> py_getitem issue ''number''))))"

text \<open>Lines 31 to 41: the event file is read only when its path is set and exists.\<close>

definition pr_number_from_event :: "world \<Rightarrow> json \<Rightarrow> event list \<times> (exn + json)" where
  "pr_number_from_event w pr_number =
     (case environ w ''GITHUB_EVENT_PATH'' of
        None \<Rightarrow> ([EnvGet ''GITHUB_EVENT_PATH''], Inr pr_number)
      | Some github_event_path \<Rightarrow>
          if github_event_path = [] then ([EnvGet ''GITHUB_EVENT_PATH''], Inr pr_number)
          else
            (case files w github_event_path of
               None \<Rightarrow>
                 ([EnvGet ''GITHUB_EVENT_PATH'', PathExists github_event_path], Inr pr_number)
             | Some Directory \<Rightarrow>
                 ([EnvGet ''GITHUB_EVENT_PATH'', PathExists github_event_path,
                   OpenRead github_event_path], Inl OSError)
             | Some (Regular text) \<Rightarrow>
                 ([EnvGet ''GITHUB_EVENT_PATH'', PathExists github_event_path,
                   OpenRead github_event_path],
                  (case json_loads w text of
                     None \<Rightarrow> Inl JSONDecodeError
                   | Some event_data \<Rightarrow> event_pr_number event_data pr_number))))"

text \<open>
  The result is \<open>None\<close> for the triple \<^verbatim>\<open>(None, None, None)\<close> and
  \<open>Some (owner, repo, number)\<close> otherwise; \<open>Inl\<close> is an exception that leaves
  the function.
\<close>

definition get_pull_request_info ::
  "world \<Rightarrow> event list \<times> (exn + (string \<times> string \<times> int) option)" where
  "get_pull_request_info w =
     (let repository = (case environ w ''GITHUB_REPOSITORY'' of None \<Rightarrow> [] | Some r \<Rightarrow> r)
      in if repository = [] then
           ([EnvGet ''GITHUB_REPOSITORY'', Print MsgNoRepository], Inr None)
         else
           (case split_on CHR ''/'' repository of
              [owner, repo] \<Rightarrow>
                (let pr0 = (case environ w ''PR_NUMBER'' of None \<Rightarrow> JNull | Some s \<Rightarrow> JStr s);
                     looked = (if \<not> truthy pr0 then pr_number_from_event w pr0
                               else ([], Inr pr0));
                     trace = [EnvGet ''GITHUB_REPOSITORY'', EnvGet ''PR_NUMBER''] @ fst looked
                 in case snd looked of
                      Inl e \<Rightarrow> (trace, Inl e)
                    | Inr pr_number \<Rightarrow>
                        if \<not> truthy pr_number then (trace @ [Print MsgNoPrNumber], Inr None)
                        else
                          (case py_int pr_number of
                             Inl e \<Rightarrow> (trace, Inl e)
                           | Inr n \<Rightarrow> (trace, Inr (Some (owner, repo, n)))))
            | _ \<Rightarrow> ([EnvGet ''GITHUB_REPOSITORY''], Inl ValueError)))"

section \<open>Helper Locator: \<^verbatim>\<open>setup_mcp_server\<close>\<close>

text \<open>\<^verbatim>\<open>os.path.join(a, b)\<close> for a relative \<open>b\<close>.\<close>

definition path_join :: "string \<Rightarrow> string \<Rightarrow> string" where
  "path_join a b = (if a = [] \<or> last a = CHR ''/'' then a @ b else a @ ''/'' @ b)"

definition setup_mcp_server :: "world \<Rightarrow> event list \<times> string option" where
  "setup_mcp_server w =
     (let server_path = path_join (getcwd w) ''github-mcp-server''
      in if files w server_path \<noteq> None then
           ([Print MsgCheckingServer, PathExists server_path, Print (MsgServerFound server_path)],
            Some server_path)
         else
           ([Print MsgCheckingServer, PathExists server_path, Print (MsgServerMissing server_path)],
            None))"

section \<open>Protocol Client: \<^verbatim>\<open>request_copilot_review\<close>\<close>

text \<open>
  A call returns a value, leaves with an exception, or never comes back (a read that
  blocks for ever).
\<close>

datatype 'a outcome = Returns 'a | Raises exn | Hangs

definition init_request :: json where
  "init_request =
     JObj [(''jsonrpc'', JStr ''2.0''),
           (''id'', JInt 1),
           (''method'', JStr ''initialize''),
           (''params'',
            JObj [(''protocolVersion'', JStr ''2024-11-05''),
                  (''capabilities'',
                   JObj [(''roots'', JObj [(''listChanged'', JBool True)]),
                         (''sampling'', JObj [])]),
                  (''clientInfo'',
                   JObj [(''name'', JStr ''github-actions-client''),
                         (''version'', JStr ''1.0.0'')])])]"

definition review_request :: "string \<Rightarrow> string \<Rightarrow> int \<Rightarrow> json" where
  "review_request owner repo pull_number =
     JObj [(''jsonrpc'', JStr ''2.0''),
           (''id'', JInt 2),
           (''method'', JStr ''tools/call''),
           (''params'',
            JObj [(''name'', JStr ''request_copilot_review''),
                  (''arguments'',
                   JObj [(''owner'', JStr owner),
                         (''repo'', JStr repo),
                         (''pullNumber'', JInt pull_number)])])]"

text \<open>
  \<^verbatim>\<open>process.stdout.readline()\<close> blocks until a whole line or the end of the stream
  is there: it gives the milliseconds it waited, the text (the next line, or the empty
  string at the end of the stream) and the rest of the pipe, and \<open>None\<close> when neither
  ever comes.
\<close>

fun readline :: "pipe \<Rightarrow> (nat \<times> string \<times> pipe) option" where
  "readline ((d, l) # rest, e) = Some (d, l, (rest, e))"
| "readline ([], Closed d) = Some (d, [], ([], Closed 0))"
| "readline ([], Silent) = None"

text \<open>
  Lines 158 to 181, the handling of one non-empty line: it returns from the function,
  raises, or falls through to the \<^verbatim>\<open>break\<close> of line 183.
\<close>

datatype handled = Return bool | Raise exn | Break

definition handle_response :: "(string \<Rightarrow> json option) \<Rightarrow> string \<Rightarrow> event list \<times> handled" where
  "handle_response loads response =
     (case loads response of
        None \<Rightarrow> ([Print (MsgReceived response), Print (MsgParseError response)], Break)
      | Some response_data \<Rightarrow>
          (case py_in ''error'' response_data of
             Inl e \<Rightarrow> ([Print (MsgReceived response)], Raise e)
           | Inr True \<Rightarrow>
               (case py_getitem response_data ''error'' of
                  Inl e \<Rightarrow> ([Print (MsgReceived response)], Raise e)
                | Inr (JObj kvs) \<Rightarrow>
                    ([Print (MsgReceived response), Print MsgRpcErrorHead,
                      Print (MsgRpcErrorCode (dict_get kvs ''code'' (JStr ''unknown''))),
                      Print (MsgRpcErrorMessage (dict_get kvs ''message'' (JStr ''unknown error'')))],
                     Return False)
                | Inr other \<Rightarrow>
                    ([Print (MsgReceived response), Print MsgRpcErrorHead], Raise AttributeError))
           | Inr False \<Rightarrow>
               (case py_in ''result'' response_data of
                  Inl e \<Rightarrow> ([Print (MsgReceived response)], Raise e)
                | Inr True \<Rightarrow>
                    (case py_getitem response_data ''result'' of
                       Inl e \<Rightarrow> ([Print (MsgReceived response)], Raise e)
                     | Inr result \<Rightarrow>
                         ([Print (MsgReceived response), Print (MsgSuccess result)], Return True))
                | Inr False \<Rightarrow>
                    ([Print (MsgReceived response), Print (MsgUnexpected response_data)], Break))))"

definition prepend :: "event list \<Rightarrow> event list \<times> 'a \<Rightarrow> event list \<times> 'a" where
  "prepend es r = (es @ fst r, snd r)"

text \<open>
  Lines 154 to 188: the polling loop and what follows it, with \<open>t\<close> the milliseconds
  since \<^verbatim>\<open>start_time\<close>. \<^verbatim>\<open>readable()\<close> is true of every stream opened for
  reading, so each round reads; an empty read is followed by a sleep of 100 ms.
\<close>

function poll :: "(string \<Rightarrow> json option) \<Rightarrow> nat \<Rightarrow> pipe \<Rightarrow> event list \<times> bool outcome" where
  "poll loads t p =
     (if t < 30000 then
        (case readline p of
           None \<Rightarrow> ([], Hangs)
         | Some (d, response, p') \<Rightarrow>
             if response \<noteq> [] then
               (case handle_response loads response of
                  (es, Return b) \<Rightarrow> (ReadLine response # es, Returns b)
                | (es, Raise e) \<Rightarrow> (ReadLine response # es, Raises e)
                | (es, Break) \<Rightarrow> (ReadLine response # es @ [Print MsgTimeout], Returns False))
             else prepend [ReadLine response, Sleep] (poll loads (t + d + 100) p'))
      else ([Print MsgTimeout], Returns False))"
  by pat_completeness auto
termination
  by (relation "measure (\<lambda>(loads, t, p). 30000 - t)") auto

declare poll.simps [simp del]

text \<open>
  Lines 84 to 188, the body of the \<^verbatim>\<open>try\<close>. The second component says whether
  \<^verbatim>\<open>process\<close> was assigned.
\<close>

definition exchange ::
  "world \<Rightarrow> string \<Rightarrow> string \<Rightarrow> int \<Rightarrow> string \<Rightarrow> string \<Rightarrow> event list \<times> bool \<times> bool outcome" where
  "exchange w owner repo pull_number server_path github_token =
     (let h = server w in
      if \<not> spawn_ok h then ([EnvCopy, Print MsgStarting], False, Raises OSError)
      else if \<not> stdin_ok h 1 then
        ([EnvCopy, Print MsgStarting, Popen server_path github_token, Print MsgSendingInit],
         True, Raises OSError)
      else
        (case readline (stdout_lines h, stdout_end h) of
           None \<Rightarrow>
             ([EnvCopy, Print MsgStarting, Popen server_path github_token, Print MsgSendingInit,
               Send init_request], True, Hangs)
         | Some (d, init_response, p) \<Rightarrow>
             if \<not> stdin_ok h 2 then
               ([EnvCopy, Print MsgStarting, Popen server_path github_token, Print MsgSendingInit,
                 Send init_request, ReadLine init_response, Print (MsgInitDone init_response),
                 Print (MsgSendingReview owner repo pull_number)], True, Raises OSError)
             else
               (let polled = poll (json_loads w) 0 p in
                ([EnvCopy, Print MsgStarting, Popen server_path github_token, Print MsgSendingInit,
                  Send init_request, ReadLine init_response, Print (MsgInitDone init_response),
                  Print (MsgSendingReview owner repo pull_number),
                  Send (review_request owner repo pull_number), Print MsgWaiting] @ fst polled,
                 True, snd polled))))"

text \<open>Lines 196 to 201, the \<^verbatim>\<open>finally\<close> block once \<^verbatim>\<open>process\<close> is assigned.\<close>

definition cleanup :: "helper \<Rightarrow> event list" where
  "cleanup h = (if exits_on_terminate h then [Terminate, Wait True] else [Terminate, Wait False, Kill])"

definition request_copilot_review ::
  "world \<Rightarrow> string \<Rightarrow> string \<Rightarrow> int \<Rightarrow> event list \<times> bool outcome" where
  "request_copilot_review w owner repo pull_number =
     (let github_token = (case environ w ''GITHUB_TOKEN'' of None \<Rightarrow> [] | Some t \<Rightarrow> t);
          t0 = [Print (MsgHeader owner repo pull_number), EnvGet ''GITHUB_TOKEN'']
      in if github_token = [] then (t0 @ [Print MsgNoToken], Returns False)
         else
           (case setup_mcp_server w of
              (ts, None) \<Rightarrow> (t0 @ ts @ [Print MsgSetupFailed], Returns False)
            | (ts, Some server_path) \<Rightarrow>
                (case exchange w owner repo pull_number server_path github_token of
                   (te, process, Hangs) \<Rightarrow> (t0 @ ts @ te, Hangs)
                 | (te, process, Raises e) \<Rightarrow>
                     (t0 @ ts @ te @ [Print (MsgException e)]
                        @ (if process then cleanup (server w) else []),
                      Returns False)
                 | (te, process, Returns b) \<Rightarrow>
                     (t0 @ ts @ te @ (if process then cleanup (server w) else []), Returns b))))"

text \<open>
  The state of the subprocess that a sequence of effects leaves behind.
\<close>

datatype pstate = NotStarted | Running | Exited | Killed

fun after_event :: "pstate \<Rightarrow> event \<Rightarrow> pstate" where
  "after_event s (Popen path token) = Running"
| "after_event s (Wait b) = (if b \<and> s = Running then Exited else s)"
| "after_event s Kill = (if s = Running then Killed else s)"
| "after_event s e = s"

definition process_state :: "event list \<Rightarrow> pstate" where
  "process_state tr = foldl after_event NotStarted tr"

text \<open>What a trace shows: a launch, a message sent, the lines read, and the reads that
  belong to target resolution (the three variables of the Context Resolver and its file).\<close>

fun is_popen :: "event \<Rightarrow> bool" where
  "is_popen (Popen path token) = True"
| "is_popen e = False"

fun is_send :: "event \<Rightarrow> bool" where
  "is_send (Send m) = True"
| "is_send e = False"

fun reads :: "event list \<Rightarrow> string list" where
  "reads [] = []"
| "reads (ReadLine s # es) = s # reads es"
| "reads (e # es) = reads es"

fun resolver_event :: "event \<Rightarrow> bool" where
  "resolver_event (EnvGet k) =
     (k \<in> set [''GITHUB_REPOSITORY'', ''PR_NUMBER'', ''GITHUB_EVENT_PATH''])"
| "resolver_event (OpenRead p) = True"
| "resolver_event e = False"

section \<open>Entry Point: \<^verbatim>\<open>main\<close>\<close>

text \<open>
  What \<^verbatim>\<open>parser.parse_args()\<close> of line 212 makes of the command line: the three
  options (one that was not given is \<open>None\<close>), or the help text and
  \<^verbatim>\<open>sys.exit(0)\<close> for \<^verbatim>\<open>--help\<close>, or a usage message and \<^verbatim>\<open>sys.exit(2)\<close>
  for a command line it does not accept. The parser is the standard library's, so its
  outcome is an input of \<^verbatim>\<open>main\<close>.
\<close>

record args =
  arg_owner :: "string option"
  arg_repo :: "string option"
  arg_pr :: "string option"

datatype cmdline = Parsed args | HelpRequested | UsageError

text \<open>
  Lines 215 to 221: the target from the command line when all three options are given
  and not empty (\<open>overrides\<close> is the test of line 215), from the Context Resolver
  otherwise. \<open>Inr None\<close> is the path to \<^verbatim>\<open>sys.exit(1)\<close> of line 221;
  \<open>Inl\<close> is an exception that leaves \<^verbatim>\<open>main\<close>.
\<close>

definition resolve :: "world \<Rightarrow> event list \<times> (exn + (string \<times> string \<times> int) option)" where
  "resolve w =
     (case get_pull_request_info w of
        (tr, Inl e) \<Rightarrow> (tr, Inl e)
      | (tr, Inr None) \<Rightarrow> (tr @ [Print MsgNoPrInfo], Inr None)
      | (tr, Inr (Some (owner, repo, pull_number))) \<Rightarrow>
          if owner = [] \<or> repo = [] \<or> pull_number = 0 then (tr @ [Print MsgNoPrInfo], Inr None)
          else (tr, Inr (Some (owner, repo, pull_number))))"

definition overrides :: "args \<Rightarrow> (string \<times> string \<times> string) option" where
  "overrides a =
     (case (arg_owner a, arg_repo a, arg_pr a) of
        (Some owner, Some repo, Some pr) \<Rightarrow>
          if owner \<noteq> [] \<and> repo \<noteq> [] \<and> pr \<noteq> [] then Some (owner, repo, pr) else None
      | _ \<Rightarrow> None)"

definition target :: "world \<Rightarrow> args \<Rightarrow> event list \<times> (exn + (string \<times> string \<times> int) option)" where
  "target w a =
     (case overrides a of
        Some (owner, repo, pr) \<Rightarrow>
          (case int_of_str pr of
             None \<Rightarrow> ([], Inl ValueError)
           | Some pull_number \<Rightarrow> ([], Inr (Some (owner, repo, pull_number))))
      | None \<Rightarrow> resolve w)"

text \<open>
  How the process ends: \<^verbatim>\<open>sys.exit(n)\<close>, an exception that nobody catches, or not
  at all. The interpreter turns an uncaught exception into exit status 1.
\<close>

datatype ending = SysExit nat | Uncaught exn | Never

fun exit_code :: "ending \<Rightarrow> nat option" where
  "exit_code (SysExit n) = Some n"
| "exit_code (Uncaught e) = Some 1"
| "exit_code Never = None"

text \<open>Lines 223 to 233: the call of the Protocol Client and the exit status.\<close>

definition run_review :: "world \<Rightarrow> string \<Rightarrow> string \<Rightarrow> int \<Rightarrow> event list \<times> ending" where
  "run_review w owner repo pull_number =
     (case request_copilot_review w owner repo pull_number of
        (tr, Returns success) \<Rightarrow>
          if success then (Print (MsgTarget owner repo pull_number) # tr @ [Print MsgDone], SysExit 0)
          else (Print (MsgTarget owner repo pull_number) # tr @ [Print MsgFailed], SysExit 1)
      | (tr, Raises e) \<Rightarrow> (Print (MsgTarget owner repo pull_number) # tr, Uncaught e)
      | (tr, Hangs) \<Rightarrow> (Print (MsgTarget owner repo pull_number) # tr, Never))"

definition main :: "world \<Rightarrow> cmdline \<Rightarrow> event list \<times> ending" where
  "main w c =
     (case c of
        HelpRequested \<Rightarrow> ([Print MsgHelp], SysExit 0)
      | UsageError \<Rightarrow> ([Print MsgUsage], SysExit 2)
      | Parsed a \<Rightarrow>
          (case target w a of
             (tr, Inl e) \<Rightarrow> (tr, Uncaught e)
           | (tr, Inr None) \<Rightarrow> (tr, SysExit 1)
           | (tr, Inr (Some (owner, repo, pull_number))) \<Rightarrow>
               prepend tr (run_review w owner repo pull_number)))"

section \<open>Sample worlds\<close>

text \<open>
  Concrete inputs for the examples below. \<open>sample_loads\<close> gives the value that
  \<^verbatim>\<open>json.loads\<close> gives on each of the texts listed, and fails on every other text;
  it is used on the listed texts and on \<open>garbage_line\<close>, which is not JSON.
  \<open>sample_helper\<close> writes the given texts, each followed by a line feed.
\<close>

definition nl :: string where "nl = [CHR 0x0A]"

definition pr_event_text :: string where
  \<open>pr_event_text = ''{"pull_request": {"number": 42}}''\<close>
definition comment_event_text :: string where
  \<open>comment_event_text = ''{"issue": {"number": 7, "pull_request": {}}}''\<close>
definition issue_event_text :: string where
  \<open>issue_event_text = ''{"issue": {"number": 7}}''\<close>
definition partial_event_text :: string where
  \<open>partial_event_text = ''{"pull_request": {}, "issue": {"number": 7, "pull_request": {}}}''\<close>

definition ack_line :: string where
  \<open>ack_line = ''{"id": 1, "result": {}}''\<close>
definition result_line :: string where
  \<open>result_line = ''{"id": 2, "result": {"ok": true}}''\<close>
definition error_line :: string where
  \<open>error_line = ''{"error": {"code": 1, "message": "x"}}''\<close>
definition notice_line :: string where
  \<open>notice_line = ''{"method": "notifications/message"}''\<close>
definition both_line :: string where
  \<open>both_line = ''{"error": {"code": 1}, "result": {}}''\<close>
definition garbage_line :: string where
  \<open>garbage_line = ''not json''\<close>

definition sample_loads :: "string \<Rightarrow> json option" where
  "sample_loads =
     map_of
       [(pr_event_text, JObj [(''pull_request'', JObj [(''number'', JInt 42)])]),
        (comment_event_text,
         JObj [(''issue'', JObj [(''number'', JInt 7), (''pull_request'', JObj [])])]),
        (issue_event_text, JObj [(''issue'', JObj [(''number'', JInt 7)])]),
        (partial_event_text,
         JObj [(''pull_request'', JObj []),
               (''issue'', JObj [(''number'', JInt 7), (''pull_request'', JObj [])])]),
        (ack_line @ nl, JObj [(''id'', JInt 1), (''result'', JObj [])]),
        (result_line @ nl, JObj [(''id'', JInt 2), (''result'', JObj [(''ok'', JBool True)])]),
        (error_line @ nl,
         JObj [(''error'', JObj [(''code'', JInt 1), (''message'', JStr ''x'')])]),
        (notice_line @ nl, JObj [(''method'', JStr ''notifications/message'')]),
        (both_line @ nl, JObj [(''error'', JObj [(''code'', JInt 1)]), (''result'', JObj [])])]"

definition sample_helper :: "(nat \<times> string) list \<Rightarrow> pipe_end \<Rightarrow> bool \<Rightarrow> helper" where
  "sample_helper lines e x =
     \<lparr>spawn_ok = True, stdin_ok = (\<lambda>i. True),
      stdout_lines = map (\<lambda>dl. (fst dl, snd dl @ nl)) lines, stdout_end = e,
      exits_on_terminate = x\<rparr>"

definition sample_world :: "(string \<times> string) list \<Rightarrow> string \<Rightarrow> helper \<Rightarrow> world" where
  "sample_world env event_text h =
     \<lparr>environ = map_of env, getcwd = ''/work'',
      files = map_of [(''/work/github-mcp-server'', Regular []), (''/event.json'', Regular event_text)],
      json_loads = sample_loads, server = h\<rparr>"

definition idle_helper :: helper where
  "idle_helper = sample_helper [] (Closed 0) True"

definition resolver_world :: "(string \<times> string) list \<Rightarrow> string \<Rightarrow> world" where
  "resolver_world env event_text =
     sample_world ((''GITHUB_REPOSITORY'', ''octo/cat'') # (''GITHUB_EVENT_PATH'', ''/event.json'') # env)
       event_text idle_helper"

definition token_env :: "(string \<times> string) list" where
  "token_env = [(''GITHUB_TOKEN'', ''t0ken'')]"

definition client_world :: "(nat \<times> string) list \<Rightarrow> pipe_end \<Rightarrow> world" where
  "client_world lines e = sample_world token_env [] (sample_helper lines e True)"

definition main_world :: "(string \<times> string) list \<Rightarrow> (nat \<times> string) list \<Rightarrow> world" where
  "main_world env lines = sample_world (env @ token_env) [] (sample_helper lines Silent True)"

definition no_args :: args where
  "no_args = \<lparr>arg_owner = None, arg_repo = None, arg_pr = None\<rparr>"

definition cli_args :: args where
  "cli_args = \<lparr>arg_owner = Some ''octo'', arg_repo = Some ''cat'', arg_pr = Some ''7''\<rparr>"

definition blank_owner_args :: args where
  "blank_owner_args = \<lparr>arg_owner = Some [], arg_repo = Some ''cat'', arg_pr = Some ''7''\<rparr>"

section \<open>Evaluation rules and auxiliary facts\<close>

lemmas sample_defs = sample_world_def sample_helper_def idle_helper_def sample_loads_def nl_def
  pr_event_text_def comment_event_text_def issue_event_text_def ack_line_def result_line_def
  error_line_def notice_line_def garbage_line_def both_line_def partial_event_text_def

lemmas int_defs = int_of_str_def strip_def py_space_def unsigned_int_def is_digit_def digit_val_def
  max_str_digits_def

lemma split_on_no_sep: "sep \<notin> set s \<Longrightarrow> split_on sep s = [s]"
  by (induction s) auto

text \<open>
  The conversion at work: padding and underscores are accepted, a separator character
  before the digit is not, and neither is a string with too many digits.
\<close>

lemma int_of_str_examples:
  "int_of_str ''42'' = Some 42"
  "int_of_str [CHR 0x20, CHR ''-'', CHR ''4'', CHR ''_'', CHR ''2'', CHR 0x0A] = Some (- 42)"
  "int_of_str [CHR 0xA0, CHR ''7'', CHR 0x85] = Some 7"
  "int_of_str [CHR 0x1F, CHR ''7''] = None"
  "int_of_str [CHR ''7'', CHR 0x1C] = None"
  "int_of_str ''4__2'' = None"
  "int_of_str ''+ 1'' = None"
  "int_of_str ''abc'' = None"
  "int_of_str [] = None"
  by (simp_all add: int_defs)

lemma unsigned_int_limit:
  "max_str_digits < length (filter is_digit s) \<Longrightarrow> unsigned_int s = None"
  by (cases s) (simp_all add: unsigned_int_def)

lemma py_in_obj: "py_in k (JObj kvs) = Inr (map_of kvs k \<noteq> None)"
  by (simp add: map_of_eq_None_iff)

lemmas client_defs = request_copilot_review_def setup_mcp_server_def exchange_def path_join_def
  Let_def handle_response_def cleanup_def prepend_def dict_get_def client_world_def token_env_def
  process_state_def

subsection \<open>The polling loop\<close>

lemma handle_response_prints:
  "e \<in> set (fst (handle_response loads response)) \<Longrightarrow> \<exists>m. e = Print m"
  by (auto simp add: handle_response_def split: option.splits sum.splits bool.splits json.splits)

lemma handle_response_received:
  "Print (MsgReceived response) \<in> set (fst (handle_response loads response))"
  by (auto simp add: handle_response_def split: option.splits sum.splits bool.splits json.splits)

lemma handle_response_obj:
  assumes "loads response = Some (JObj kvs)"
  shows "map_of kvs ''error'' \<noteq> None \<Longrightarrow>
           snd (handle_response loads response) = Return False
           \<or> snd (handle_response loads response) = Raise AttributeError"
    and "map_of kvs ''error'' = None \<Longrightarrow> map_of kvs ''result'' \<noteq> None \<Longrightarrow>
           snd (handle_response loads response) = Return True"
    and "map_of kvs ''error'' = None \<Longrightarrow> map_of kvs ''result'' = None \<Longrightarrow>
           handle_response loads response =
             ([Print (MsgReceived response), Print (MsgUnexpected (JObj kvs))], Break)"
  using assms
  by (auto simp add: handle_response_def py_in_obj simp del: py_in.simps split: json.splits)

lemma handle_response_unparsed:
  "loads response = None \<Longrightarrow>
   handle_response loads response =
     ([Print (MsgReceived response), Print (MsgParseError response)], Break)"
  by (simp add: handle_response_def)

lemma poll_events:
  "e \<in> set (fst (poll loads t p)) \<Longrightarrow> (\<exists>s. e = ReadLine s) \<or> e = Sleep \<or> (\<exists>m. e = Print m)"
proof (induction loads t p rule: poll.induct)
  case (1 loads t p)
  show ?case
  proof (cases "t < 30000")
    case False
    with "1.prems" show ?thesis by (simp add: poll.simps)
  next
    case True
    show ?thesis
    proof (cases "readline p")
      case None
      with True "1.prems" show ?thesis by (simp add: poll.simps)
    next
      case (Some r)
      obtain d response p' where r: "r = (d, response, p')" by (cases r) auto
      show ?thesis
      proof (cases "response = []")
        case True
        with \<open>t < 30000\<close> Some r "1.prems" "1.IH"[of r d "(response, p')" response p']
        show ?thesis by (auto simp add: poll.simps[of loads t p] prepend_def)
      next
        case False
        obtain es v where h: "handle_response loads response = (es, v)" by (cases "handle_response loads response") auto
        with handle_response_prints[of _ loads response] have "\<And>e. e \<in> set es \<Longrightarrow> \<exists>m. e = Print m" by simp
        with False \<open>t < 30000\<close> Some r "1.prems" h
        show ?thesis by (cases v) (auto simp add: poll.simps[of loads t p])
      qed
    qed
  qed
qed

lemma poll_first_line:
  "l \<noteq> [] \<Longrightarrow>
   poll loads 0 ((d, l) # rest, e) =
     (case handle_response loads l of
        (es, Return b) \<Rightarrow> (ReadLine l # es, Returns b)
      | (es, Raise x) \<Rightarrow> (ReadLine l # es, Raises x)
      | (es, Break) \<Rightarrow> (ReadLine l # es @ [Print MsgTimeout], Returns False))"
  by (simp add: poll.simps)

text \<open>
  When the stream has ended, every read returns at once and the loop leaves after the
  rounds that fit into thirty seconds: the time limit works in this case.
\<close>

lemma poll_closed_stream:
  "snd (poll loads t ([], Closed d)) = Returns False"
proof (induction "30000 - t" arbitrary: t d rule: less_induct)
  case less
  show ?case
  proof (cases "t < 30000")
    case False
    then show ?thesis by (simp add: poll.simps)
  next
    case True
    then have "30000 - (t + d + 100) < 30000 - t" by arith
    from less[OF this] True show ?thesis
      by (simp add: poll.simps[of loads t] prepend_def)
  qed
qed

text \<open>
  The rounds of the loop on a stream that has ended: a read and a sleep of 100 ms each,
  as many as fit into the thirty seconds, and then the time-out message.
\<close>

lemma rounds_count:
  fixes t :: nat
  assumes "t < 30000"
  shows "(30000 - t + 99) div 100 = Suc ((30000 - (t + 100) + 99) div 100)"
proof -
  define m where "m = 30000 - t"
  have pos: "0 < m" using assms by (simp add: m_def)
  have eq: "30000 - (t + 100) = m - 100" by (simp add: m_def)
  have "m + 99 = (m - 1) + 100" using pos by simp
  then have l: "(m + 99) div 100 = Suc ((m - 1) div 100)" by simp
  have r: "(m - 100 + 99) div 100 = (m - 1) div 100"
  proof (cases "100 \<le> m")
    case True
    then have "m - 100 + 99 = m - 1" by simp
    then show ?thesis by simp
  next
    case False
    then show ?thesis by simp
  qed
  show ?thesis unfolding eq m_def[symmetric] l r ..
qed

lemma poll_closed_rounds:
  "fst (poll loads t ([], Closed 0)) =
     concat (replicate ((30000 - t + 99) div 100) [ReadLine [], Sleep]) @ [Print MsgTimeout]"
proof (induction "30000 - t" arbitrary: t rule: less_induct)
  case less
  show ?case
  proof (cases "t < 30000")
    case False
    then have zero: "(30000 - t + 99) div 100 = 0" by simp
    from False have "poll loads t ([], Closed 0) = ([Print MsgTimeout], Returns False)"
      by (simp add: poll.simps)
    then show ?thesis unfolding zero by simp
  next
    case True
    then have smaller: "30000 - (t + 100) < 30000 - t" by simp
    have step: "poll loads t ([], Closed 0) =
        prepend [ReadLine [], Sleep] (poll loads (t + 100) ([], Closed 0))"
      using True by (simp add: poll.simps[of loads t])
    show ?thesis
      unfolding step rounds_count[OF True] prepend_def less[OF smaller]
      by simp
  qed
qed

lemma poll_closed_sleeps:
  "length (filter (\<lambda>e. e = Sleep) (fst (poll loads 0 ([], Closed 0)))) = 300"
proof -
  have "length (filter (\<lambda>e. e = Sleep) (concat (replicate k [ReadLine [], Sleep]))) = k" for k
    by (induction k) simp_all
  then show ?thesis unfolding poll_closed_rounds by simp
qed

subsection \<open>The state of the subprocess along a trace\<close>

lemma foldl_inert:
  "(\<And>e s. e \<in> set es \<Longrightarrow> after_event s e = s) \<Longrightarrow> foldl after_event s es = s"
  by (induction es arbitrary: s) auto

lemma poll_state: "foldl after_event s (fst (poll loads t p)) = s"
proof (rule foldl_inert)
  fix e s'
  assume "e \<in> set (fst (poll loads t p))"
  from poll_events[OF this] show "after_event s' e = s'" by auto
qed

lemma reads_append: "reads (xs @ ys) = reads xs @ reads ys"
  by (induction xs rule: reads.induct) simp_all

lemma reads_prints: "(\<And>e. e \<in> set es \<Longrightarrow> \<exists>m. e = Print m) \<Longrightarrow> reads es = []"
  by (induction es rule: reads.induct) auto

subsection \<open>The client, case by case\<close>

lemma exchange_not_spawned:
  "\<not> spawn_ok (server w) \<Longrightarrow>
   exchange w owner repo n path tok = ([EnvCopy, Print MsgStarting], False, Raises OSError)"
  by (simp add: exchange_def)

lemma exchange_spawned:
  assumes "spawn_ok (server w)"
  shows "\<exists>rest r. exchange w owner repo n path tok =
           ([EnvCopy, Print MsgStarting, Popen path tok] @ rest, True, r)
         \<and> (\<forall>s. foldl after_event s rest = s)"
proof (cases "stdin_ok (server w) 1")
  case False
  with assms show ?thesis by (simp add: exchange_def)
next
  case w1: True
  show ?thesis
  proof (cases "readline (stdout_lines (server w), stdout_end (server w))")
    case None
    with assms w1 show ?thesis by (simp add: exchange_def)
  next
    case (Some x)
    obtain d init_response p where x: "x = (d, init_response, p)" by (cases x) auto
    show ?thesis
    proof (cases "stdin_ok (server w) 2")
      case False
      with assms w1 Some x show ?thesis by (simp add: exchange_def)
    next
      case True
      with assms w1 Some x show ?thesis by (simp add: exchange_def Let_def poll_state)
    qed
  qed
qed

lemma exchange_polls:
  assumes "spawn_ok (server w)" "stdin_ok (server w) 1" "stdin_ok (server w) 2"
    and "stdout_lines (server w) = (d0, l0) # rest"
  shows "exchange w owner repo n path tok =
     ([EnvCopy, Print MsgStarting, Popen path tok, Print MsgSendingInit, Send init_request,
       ReadLine l0, Print (MsgInitDone l0),
       Print (MsgSendingReview owner repo n), Send (review_request owner repo n),
       Print MsgWaiting] @ fst (poll (json_loads w) 0 (rest, stdout_end (server w))),
      True, snd (poll (json_loads w) 0 (rest, stdout_end (server w))))"
  using assms by (simp add: exchange_def Let_def)

lemma setup_found:
  "files w (path_join (getcwd w) ''github-mcp-server'') \<noteq> None \<Longrightarrow>
   setup_mcp_server w =
     ([Print MsgCheckingServer, PathExists (path_join (getcwd w) ''github-mcp-server''),
       Print (MsgServerFound (path_join (getcwd w) ''github-mcp-server''))],
      Some (path_join (getcwd w) ''github-mcp-server''))"
  by (simp add: setup_mcp_server_def Let_def)

lemma setup_missing:
  "files w (path_join (getcwd w) ''github-mcp-server'') = None \<Longrightarrow>
   setup_mcp_server w =
     ([Print MsgCheckingServer, PathExists (path_join (getcwd w) ''github-mcp-server''),
       Print (MsgServerMissing (path_join (getcwd w) ''github-mcp-server''))],
      None)"
  by (simp add: setup_mcp_server_def Let_def)

lemma client_without_token:
  "environ w ''GITHUB_TOKEN'' = None \<or> environ w ''GITHUB_TOKEN'' = Some [] \<Longrightarrow>
   request_copilot_review w owner repo n =
     ([Print (MsgHeader owner repo n), EnvGet ''GITHUB_TOKEN'', Print MsgNoToken], Returns False)"
  by (auto simp add: request_copilot_review_def Let_def)

lemma client_without_server:
  assumes "environ w ''GITHUB_TOKEN'' = Some tok" "tok \<noteq> []"
    and "files w (path_join (getcwd w) ''github-mcp-server'') = None"
  shows "request_copilot_review w owner repo n =
     ([Print (MsgHeader owner repo n), EnvGet ''GITHUB_TOKEN'',
       Print MsgCheckingServer, PathExists (path_join (getcwd w) ''github-mcp-server''),
       Print (MsgServerMissing (path_join (getcwd w) ''github-mcp-server'')),
       Print MsgSetupFailed], Returns False)"
  using assms by (simp add: request_copilot_review_def Let_def setup_missing)

lemma client_with_server:
  assumes "environ w ''GITHUB_TOKEN'' = Some tok" "tok \<noteq> []"
    and "files w (path_join (getcwd w) ''github-mcp-server'') \<noteq> None"
    and "exchange w owner repo n (path_join (getcwd w) ''github-mcp-server'') tok = (te, process, r)"
  shows "request_copilot_review w owner repo n =
     (case r of
        Hangs \<Rightarrow>
          ([Print (MsgHeader owner repo n), EnvGet ''GITHUB_TOKEN'',
            Print MsgCheckingServer, PathExists (path_join (getcwd w) ''github-mcp-server''),
            Print (MsgServerFound (path_join (getcwd w) ''github-mcp-server''))] @ te, Hangs)
      | Raises e \<Rightarrow>
          ([Print (MsgHeader owner repo n), EnvGet ''GITHUB_TOKEN'',
            Print MsgCheckingServer, PathExists (path_join (getcwd w) ''github-mcp-server''),
            Print (MsgServerFound (path_join (getcwd w) ''github-mcp-server''))] @ te
             @ [Print (MsgException e)] @ (if process then cleanup (server w) else []),
           Returns False)
      | Returns b \<Rightarrow>
          ([Print (MsgHeader owner repo n), EnvGet ''GITHUB_TOKEN'',
            Print MsgCheckingServer, PathExists (path_join (getcwd w) ''github-mcp-server''),
            Print (MsgServerFound (path_join (getcwd w) ''github-mcp-server''))] @ te
             @ (if process then cleanup (server w) else []),
           Returns b))"
  using assms by (cases r) (simp_all add: request_copilot_review_def Let_def setup_found)

lemma client_first_response:
  assumes tok: "environ w ''GITHUB_TOKEN'' = Some tok" "tok \<noteq> []"
    and srv: "files w (path_join (getcwd w) ''github-mcp-server'') \<noteq> None"
    and ok: "spawn_ok (server w)" "stdin_ok (server w) 1" "stdin_ok (server w) 2"
    and out: "stdout_lines (server w) = (d0, l0) # (d1, l1) # rest"
    and ne: "l1 \<noteq> []"
  shows "snd (request_copilot_review w owner repo n) =
           (case snd (handle_response (json_loads w) l1) of
              Return b \<Rightarrow> Returns b | Raise x \<Rightarrow> Returns False | Break \<Rightarrow> Returns False)"
    and "reads (fst (request_copilot_review w owner repo n)) = [l0, l1]"
    and "Sleep \<notin> set (fst (request_copilot_review w owner repo n))"
    and "Print (MsgReceived l1) \<in> set (fst (request_copilot_review w owner repo n))"
proof -
  obtain es v where h: "handle_response (json_loads w) l1 = (es, v)"
    by (cases "handle_response (json_loads w) l1") auto
  have prints: "\<And>e. e \<in> set es \<Longrightarrow> \<exists>m. e = Print m"
    using handle_response_prints[of _ "json_loads w" l1] h by simp
  have nosleep: "Sleep \<notin> set es" using prints by blast
  have recv: "Print (MsgReceived l1) \<in> set es"
    using handle_response_received[of l1 "json_loads w"] h by simp
  have noreads: "reads es = []" using prints by (rule reads_prints)
  note ex = exchange_polls[OF ok out, of owner repo n "path_join (getcwd w) ''github-mcp-server''" tok]
  note cl = client_with_server[OF tok srv ex]
  note first = poll_first_line[OF ne, of "json_loads w" d1 rest "stdout_end (server w)"]
  show "snd (request_copilot_review w owner repo n) =
           (case snd (handle_response (json_loads w) l1) of
              Return b \<Rightarrow> Returns b | Raise x \<Rightarrow> Returns False | Break \<Rightarrow> Returns False)"
    unfolding cl first h by (cases v) simp_all
  show "reads (fst (request_copilot_review w owner repo n)) = [l0, l1]"
    unfolding cl first h by (cases v) (simp_all add: reads_append noreads cleanup_def)
  show "Sleep \<notin> set (fst (request_copilot_review w owner repo n))"
    unfolding cl first h using nosleep by (cases v) (simp_all add: cleanup_def)
  show "Print (MsgReceived l1) \<in> set (fst (request_copilot_review w owner repo n))"
    unfolding cl first h using recv by (cases v) simp_all
qed

lemma client_times_out_on_closed_stream:
  assumes "environ w ''GITHUB_TOKEN'' = Some tok" and "tok \<noteq> []"
    and "files w (path_join (getcwd w) ''github-mcp-server'') \<noteq> None"
    and "spawn_ok (server w)" and "stdin_ok (server w) 1" and "stdin_ok (server w) 2"
    and "stdout_lines (server w) = [(d0, l0)]" and "stdout_end (server w) = Closed d"
  shows "snd (request_copilot_review w owner repo n) = Returns False"
  unfolding client_with_server[OF assms(1-3) exchange_polls[OF assms(4-7)]]
  using poll_closed_stream[of "json_loads w" 0 d] assms(8)
  by (cases "snd (poll (json_loads w) 0 ([], Closed d))") simp_all

subsection \<open>The client as the entry point sees it\<close>

lemma exchange_events:
  "e \<in> set (fst (exchange w owner repo n path tok)) \<Longrightarrow> \<not> resolver_event e"
proof (cases "spawn_ok (server w)")
  case False
  assume "e \<in> set (fst (exchange w owner repo n path tok))"
  with False show ?thesis by (auto simp add: exchange_def)
next
  case True
  assume e: "e \<in> set (fst (exchange w owner repo n path tok))"
  have polled: "\<not> resolver_event x" if "x \<in> set (fst (poll loads t p))" for x loads t p
    using poll_events[OF that] by auto
  from e True show ?thesis
    by (auto simp add: exchange_def Let_def split: if_splits option.splits dest: polled)
qed

lemma cleanup_events: "e \<in> set (cleanup h) \<Longrightarrow> \<not> resolver_event e"
  by (auto simp add: cleanup_def split: if_splits)

lemma client_events:
  assumes "e \<in> set (fst (request_copilot_review w owner repo n))"
  shows "\<not> resolver_event e"
proof (cases "environ w ''GITHUB_TOKEN'' = None \<or> environ w ''GITHUB_TOKEN'' = Some []")
  case True
  from client_without_token[OF this, of owner repo n] assms show ?thesis by auto
next
  case False
  then obtain tok where tok: "environ w ''GITHUB_TOKEN'' = Some tok" "tok \<noteq> []" by auto
  show ?thesis
  proof (cases "files w (path_join (getcwd w) ''github-mcp-server'') = None")
    case True
    from client_without_server[OF tok this, of owner repo n] assms show ?thesis by auto
  next
    case srv: False
    obtain te process r where
      ex: "exchange w owner repo n (path_join (getcwd w) ''github-mcp-server'') tok = (te, process, r)"
      by (cases "exchange w owner repo n (path_join (getcwd w) ''github-mcp-server'') tok") auto
    have te: "\<And>x. x \<in> set te \<Longrightarrow> \<not> resolver_event x"
      using exchange_events[of _ w owner repo n "path_join (getcwd w) ''github-mcp-server''" tok] ex
      by simp
    from assms show ?thesis
      unfolding client_with_server[OF tok srv ex]
      by (cases r) (auto dest: te cleanup_events split: if_splits)
  qed
qed

lemma client_returns_or_hangs: "snd (request_copilot_review w owner repo n) \<noteq> Raises e"
proof (cases "environ w ''GITHUB_TOKEN'' = None \<or> environ w ''GITHUB_TOKEN'' = Some []")
  case True
  from client_without_token[OF this, of owner repo n] show ?thesis by simp
next
  case False
  then obtain tok where tok: "environ w ''GITHUB_TOKEN'' = Some tok" "tok \<noteq> []" by auto
  show ?thesis
  proof (cases "files w (path_join (getcwd w) ''github-mcp-server'') = None")
    case True
    from client_without_server[OF tok this, of owner repo n] show ?thesis by simp
  next
    case srv: False
    obtain te process r where
      ex: "exchange w owner repo n (path_join (getcwd w) ''github-mcp-server'') tok = (te, process, r)"
      by (cases "exchange w owner repo n (path_join (getcwd w) ''github-mcp-server'') tok") auto
    show ?thesis
      unfolding client_with_server[OF tok srv ex] by (cases r) simp_all
  qed
qed

lemma client_inputs:
  assumes "environ w' ''GITHUB_TOKEN'' = environ w ''GITHUB_TOKEN''"
    and "getcwd w' = getcwd w"
    and "(files w' (path_join (getcwd w) ''github-mcp-server'') = None)
         = (files w (path_join (getcwd w) ''github-mcp-server'') = None)"
    and "json_loads w' = json_loads w"
    and "server w' = server w"
  shows "request_copilot_review w' owner repo n = request_copilot_review w owner repo n"
proof -
  have ex: "exchange w' owner repo n path tok = exchange w owner repo n path tok" for path tok
    unfolding exchange_def assms(4) assms(5) ..
  have su: "setup_mcp_server w' = setup_mcp_server w"
    using assms(3) unfolding setup_mcp_server_def assms(2) by (auto simp add: Let_def)
  show ?thesis
    unfolding request_copilot_review_def assms(1) assms(5) su ex ..
qed

lemma run_review_code:
  "exit_code (snd (run_review w owner repo n)) =
     (case snd (request_copilot_review w owner repo n) of
        Returns b \<Rightarrow> Some (if b then 0 else 1)
      | Raises e \<Rightarrow> Some 1
      | Hangs \<Rightarrow> None)"
  by (cases "request_copilot_review w owner repo n"; cases "snd (request_copilot_review w owner repo n)")
    (auto simp add: run_review_def)

lemma main_code:
  "exit_code (snd (main w (Parsed a))) =
     (case snd (target w a) of
        Inl e \<Rightarrow> Some 1
      | Inr None \<Rightarrow> Some 1
      | Inr (Some (owner, repo, n)) \<Rightarrow> exit_code (snd (run_review w owner repo n)))"
  by (cases "target w a")
    (auto simp add: main_def prepend_def split: sum.splits option.splits)

section \<open>The Context Resolver\<close>

text \<open>
  Claim C2 says that a repository identifier without a \<open>/\<close> makes the Context Resolver
  return the empty result instead of raising. The code does the opposite at
  \<open>octocat\<close>: the unpacking of line 21 raises \<^verbatim>\<open>ValueError\<close>.
\<close>

theorem C2_counterexample:
  "snd (get_pull_request_info (sample_world [(''GITHUB_REPOSITORY'', ''octocat'')] [] idle_helper))
     = Inl ValueError
   \<and> snd (get_pull_request_info (sample_world [(''GITHUB_REPOSITORY'', ''octocat'')] [] idle_helper))
     \<noteq> Inr None"
  by (simp add: get_pull_request_info_def sample_defs)

text \<open>
  Claim C2, amended: for every non-empty repository identifier that contains no \<open>/\<close>,
  the Context Resolver reads that one environment variable and then raises
  \<^verbatim>\<open>ValueError\<close>; it returns no result at all.
\<close>

theorem C2_raises:
  assumes "environ w ''GITHUB_REPOSITORY'' = Some repository"
    and "repository \<noteq> []"
    and "CHR ''/'' \<notin> set repository"
  shows "get_pull_request_info w = ([EnvGet ''GITHUB_REPOSITORY''], Inl ValueError)"
  using assms by (simp add: get_pull_request_info_def split_on_no_sep)

theorem C2_raises_witness:
  "get_pull_request_info (sample_world [(''GITHUB_REPOSITORY'', ''octocat'')] [] idle_helper)
     = ([EnvGet ''GITHUB_REPOSITORY''], Inl ValueError)"
  using C2_raises [of "sample_world [(''GITHUB_REPOSITORY'', ''octocat'')] [] idle_helper" "''octocat''"]
  by (simp add: sample_defs)

text \<open>
  Claim C10: with a well-formed repository identifier \<open>owner/repo\<close>, an override
  \<^verbatim>\<open>PR_NUMBER\<close> that is a non-empty string but not a decimal integer makes the
  Context Resolver raise \<^verbatim>\<open>ValueError\<close> at the conversion of line 47; it does not
  return the empty result, and the event file is not looked at.
\<close>

theorem C10_raises:
  assumes "environ w ''GITHUB_REPOSITORY'' = Some repository"
    and "split_on CHR ''/'' repository = [owner, repo]"
    and "environ w ''PR_NUMBER'' = Some s"
    and "s \<noteq> []"
    and "int_of_str s = None"
  shows "get_pull_request_info w =
           ([EnvGet ''GITHUB_REPOSITORY'', EnvGet ''PR_NUMBER''], Inl ValueError)
         \<and> snd (get_pull_request_info w) \<noteq> Inr None"
proof -
  from assms(2) have "repository \<noteq> []" by auto
  with assms show ?thesis by (simp add: get_pull_request_info_def)
qed

theorem C10_raises_witness:
  "get_pull_request_info
     (sample_world [(''GITHUB_REPOSITORY'', ''octo/cat''), (''PR_NUMBER'', ''abc'')] [] idle_helper)
   = ([EnvGet ''GITHUB_REPOSITORY'', EnvGet ''PR_NUMBER''], Inl ValueError)"
  using C10_raises [of "sample_world [(''GITHUB_REPOSITORY'', ''octo/cat''), (''PR_NUMBER'', ''abc'')] [] idle_helper"
      "''octo/cat''" "''octo''" "''cat''" "''abc''"]
  by (simp add: sample_defs int_defs)

text \<open>
  Claim C6 says that the override is used when it is set, and that the number falls back
  to \<open>issue.number\<close> when \<open>pull_request.number\<close> is not present. Neither holds as
  stated. An override set to the empty string is not used: the event's 42 is returned.
  An event with a \<open>pull_request\<close> key that holds no \<open>number\<close> does not fall back to
  its \<open>issue\<close>: line 38 raises \<^verbatim>\<open>KeyError\<close>.
\<close>

theorem C6_counterexample:
  "snd (get_pull_request_info (resolver_world [(''PR_NUMBER'', [])] pr_event_text))
     = Inr (Some (''octo'', ''cat'', 42))
   \<and> snd (get_pull_request_info (resolver_world [] partial_event_text)) = Inl KeyError"
  by (simp add: get_pull_request_info_def pr_number_from_event_def event_pr_number_def
      resolver_world_def sample_defs)

text \<open>
  Claim C6, amended: the priority order of the pull-request number, for a well-formed
  repository identifier. An override \<^verbatim>\<open>PR_NUMBER\<close> that is set to a non-empty string
  is converted and returned without reading the event file, whatever that file holds.
  Otherwise (the override is unset or empty), with an event file that parses to a dict:
  when the dict has a \<open>pull_request\<close> key, the \<open>number\<close> of that dict is returned;
  when it has no \<open>pull_request\<close> key, the \<open>number\<close> of its \<open>issue\<close> dict is
  returned if that dict has a \<open>pull_request\<close> key, and the empty result is returned
  if it has none. (The numbers are non-zero integers, as 42 and 7 are.)
\<close>

theorem C6_priority:
  assumes "environ w ''GITHUB_REPOSITORY'' = Some repository"
    and "split_on CHR ''/'' repository = [owner, repo]"
  shows
    "(\<forall>s. environ w ''PR_NUMBER'' = Some s \<and> s \<noteq> [] \<longrightarrow>
        get_pull_request_info w =
          ([EnvGet ''GITHUB_REPOSITORY'', EnvGet ''PR_NUMBER''],
           (case int_of_str s of None \<Rightarrow> Inl ValueError | Some n \<Rightarrow> Inr (Some (owner, repo, n)))))
     \<and> (\<forall>p body ev.
          (environ w ''PR_NUMBER'' = None \<or> environ w ''PR_NUMBER'' = Some [])
          \<and> environ w ''GITHUB_EVENT_PATH'' = Some p \<and> p \<noteq> []
          \<and> files w p = Some (Regular body) \<and> json_loads w body = Some (JObj ev) \<longrightarrow>
          (\<forall>pull n. map_of ev ''pull_request'' = Some (JObj pull)
               \<and> map_of pull ''number'' = Some (JInt n) \<and> n \<noteq> 0 \<longrightarrow>
               snd (get_pull_request_info w) = Inr (Some (owner, repo, n)))
          \<and> (\<forall>issue n. map_of ev ''pull_request'' = None
               \<and> map_of ev ''issue'' = Some (JObj issue)
               \<and> map_of issue ''pull_request'' \<noteq> None
               \<and> map_of issue ''number'' = Some (JInt n) \<and> n \<noteq> 0 \<longrightarrow>
               snd (get_pull_request_info w) = Inr (Some (owner, repo, n)))
          \<and> (\<forall>issue. map_of ev ''pull_request'' = None
               \<and> map_of ev ''issue'' = Some (JObj issue)
               \<and> map_of issue ''pull_request'' = None \<longrightarrow>
               snd (get_pull_request_info w) = Inr None))"
proof -
  from assms(2) have ne: "repository \<noteq> []" by auto
  have override: "get_pull_request_info w =
          ([EnvGet ''GITHUB_REPOSITORY'', EnvGet ''PR_NUMBER''],
           (case int_of_str s of None \<Rightarrow> Inl ValueError | Some n \<Rightarrow> Inr (Some (owner, repo, n))))"
    if "environ w ''PR_NUMBER'' = Some s" "s \<noteq> []" for s
    using assms ne that by (simp add: get_pull_request_info_def split: option.splits)
  have event: "snd (get_pull_request_info w) =
          (case event_pr_number (JObj ev) (case environ w ''PR_NUMBER'' of None \<Rightarrow> JNull | Some s \<Rightarrow> JStr s) of
             Inl e \<Rightarrow> Inl e
           | Inr v \<Rightarrow> if \<not> truthy v then Inr None
                      else (case py_int v of Inl e \<Rightarrow> Inl e | Inr n \<Rightarrow> Inr (Some (owner, repo, n))))"
    if "environ w ''PR_NUMBER'' = None \<or> environ w ''PR_NUMBER'' = Some []"
      "environ w ''GITHUB_EVENT_PATH'' = Some p" "p \<noteq> []"
      "files w p = Some (Regular body)" "json_loads w body = Some (JObj ev)" for p body ev
    using assms ne that
    by (auto simp add: get_pull_request_info_def pr_number_from_event_def split: sum.splits)
  show ?thesis
  proof (intro conjI allI impI)
    fix s assume "environ w ''PR_NUMBER'' = Some s \<and> s \<noteq> []"
    then show "get_pull_request_info w =
          ([EnvGet ''GITHUB_REPOSITORY'', EnvGet ''PR_NUMBER''],
           (case int_of_str s of None \<Rightarrow> Inl ValueError | Some n \<Rightarrow> Inr (Some (owner, repo, n))))"
      using override by blast
  next
    fix p body ev pull n
    assume h: "(environ w ''PR_NUMBER'' = None \<or> environ w ''PR_NUMBER'' = Some [])
          \<and> environ w ''GITHUB_EVENT_PATH'' = Some p \<and> p \<noteq> []
          \<and> files w p = Some (Regular body) \<and> json_loads w body = Some (JObj ev)"
      and k: "map_of ev ''pull_request'' = Some (JObj pull)
               \<and> map_of pull ''number'' = Some (JInt n) \<and> n \<noteq> 0"
    from h have "snd (get_pull_request_info w) =
          (case event_pr_number (JObj ev) (case environ w ''PR_NUMBER'' of None \<Rightarrow> JNull | Some s \<Rightarrow> JStr s) of
             Inl e \<Rightarrow> Inl e
           | Inr v \<Rightarrow> if \<not> truthy v then Inr None
                      else (case py_int v of Inl e \<Rightarrow> Inl e | Inr n \<Rightarrow> Inr (Some (owner, repo, n))))"
      by (intro event) auto
    with k show "snd (get_pull_request_info w) = Inr (Some (owner, repo, n))"
      by (simp add: event_pr_number_def py_in_obj del: py_in.simps)
  next
    fix p body ev issue n
    assume h: "(environ w ''PR_NUMBER'' = None \<or> environ w ''PR_NUMBER'' = Some [])
          \<and> environ w ''GITHUB_EVENT_PATH'' = Some p \<and> p \<noteq> []
          \<and> files w p = Some (Regular body) \<and> json_loads w body = Some (JObj ev)"
      and k: "map_of ev ''pull_request'' = None
               \<and> map_of ev ''issue'' = Some (JObj issue)
               \<and> map_of issue ''pull_request'' \<noteq> None
               \<and> map_of issue ''number'' = Some (JInt n) \<and> n \<noteq> 0"
    from h have "snd (get_pull_request_info w) =
          (case event_pr_number (JObj ev) (case environ w ''PR_NUMBER'' of None \<Rightarrow> JNull | Some s \<Rightarrow> JStr s) of
             Inl e \<Rightarrow> Inl e
           | Inr v \<Rightarrow> if \<not> truthy v then Inr None
                      else (case py_int v of Inl e \<Rightarrow> Inl e | Inr n \<Rightarrow> Inr (Some (owner, repo, n))))"
      by (intro event) auto
    with k show "snd (get_pull_request_info w) = Inr (Some (owner, repo, n))"
      by (simp add: event_pr_number_def py_in_obj del: py_in.simps)
  next
    fix p body ev issue
    assume h: "(environ w ''PR_NUMBER'' = None \<or> environ w ''PR_NUMBER'' = Some [])
          \<and> environ w ''GITHUB_EVENT_PATH'' = Some p \<and> p \<noteq> []
          \<and> files w p = Some (Regular body) \<and> json_loads w body = Some (JObj ev)"
      and k: "map_of ev ''pull_request'' = None
               \<and> map_of ev ''issue'' = Some (JObj issue)
               \<and> map_of issue ''pull_request'' = None"
    from h have "snd (get_pull_request_info w) =
          (case event_pr_number (JObj ev) (case environ w ''PR_NUMBER'' of None \<Rightarrow> JNull | Some s \<Rightarrow> JStr s) of
             Inl e \<Rightarrow> Inl e
           | Inr v \<Rightarrow> if \<not> truthy v then Inr None
                      else (case py_int v of Inl e \<Rightarrow> Inl e | Inr n \<Rightarrow> Inr (Some (owner, repo, n))))"
      by (intro event) auto
    with h k show "snd (get_pull_request_info w) = Inr None"
      by (auto simp add: event_pr_number_def py_in_obj simp del: py_in.simps)
  qed
qed

theorem C6_priority_witness:
  "get_pull_request_info (resolver_world [(''PR_NUMBER'', ''5'')] pr_event_text)
     = ([EnvGet ''GITHUB_REPOSITORY'', EnvGet ''PR_NUMBER''], Inr (Some (''octo'', ''cat'', 5)))
   \<and> snd (get_pull_request_info (resolver_world [] pr_event_text)) = Inr (Some (''octo'', ''cat'', 42))
   \<and> snd (get_pull_request_info (resolver_world [] comment_event_text)) = Inr (Some (''octo'', ''cat'', 7))
   \<and> snd (get_pull_request_info (resolver_world [] issue_event_text)) = Inr None"
proof (intro conjI)
  show "get_pull_request_info (resolver_world [(''PR_NUMBER'', ''5'')] pr_event_text)
     = ([EnvGet ''GITHUB_REPOSITORY'', EnvGet ''PR_NUMBER''], Inr (Some (''octo'', ''cat'', 5)))"
    using C6_priority [of "resolver_world [(''PR_NUMBER'', ''5'')] pr_event_text" "''octo/cat''" "''octo''" "''cat''"]
    by (simp add: resolver_world_def sample_defs int_defs)
  show "snd (get_pull_request_info (resolver_world [] pr_event_text)) = Inr (Some (''octo'', ''cat'', 42))"
    using C6_priority [of "resolver_world [] pr_event_text" "''octo/cat''" "''octo''" "''cat''"]
    by (simp add: resolver_world_def sample_defs)
  show "snd (get_pull_request_info (resolver_world [] comment_event_text)) = Inr (Some (''octo'', ''cat'', 7))"
    using C6_priority [of "resolver_world [] comment_event_text" "''octo/cat''" "''octo''" "''cat''"]
    by (simp add: resolver_world_def sample_defs)
  show "snd (get_pull_request_info (resolver_world [] issue_event_text)) = Inr None"
    using C6_priority [of "resolver_world [] issue_event_text" "''octo/cat''" "''octo''" "''cat''"]
    by (simp add: resolver_world_def sample_defs)
qed

section \<open>The Protocol Client\<close>

text \<open>
  Claim C7: when the access token is absent (or empty), or the helper executable is not
  in the working directory, the Protocol Client returns failure, and its trace has no
  launch of a subprocess and no message sent; no process was ever started.
\<close>

theorem C7_no_launch:
  assumes "environ w ''GITHUB_TOKEN'' = None \<or> environ w ''GITHUB_TOKEN'' = Some []
           \<or> files w (path_join (getcwd w) ''github-mcp-server'') = None"
  shows "snd (request_copilot_review w owner repo n) = Returns False
         \<and> (\<forall>e \<in> set (fst (request_copilot_review w owner repo n)). \<not> is_popen e \<and> \<not> is_send e)
         \<and> process_state (fst (request_copilot_review w owner repo n)) = NotStarted"
  using assms
  by (auto simp add: request_copilot_review_def setup_mcp_server_def process_state_def Let_def
      split: option.splits)

theorem C7_no_launch_witness:
  "snd (request_copilot_review (sample_world [] [] idle_helper) ''octo'' ''cat'' 7) = Returns False
   \<and> process_state (fst (request_copilot_review (sample_world [] [] idle_helper) ''octo'' ''cat'' 7))
       = NotStarted
   \<and> snd (request_copilot_review ((client_world [] Silent)\<lparr>files := Map.empty\<rparr>) ''octo'' ''cat'' 7)
       = Returns False
   \<and> process_state (fst (request_copilot_review ((client_world [] Silent)\<lparr>files := Map.empty\<rparr>)
         ''octo'' ''cat'' 7)) = NotStarted"
  using C7_no_launch [of "sample_world [] [] idle_helper" "''octo''" "''cat''" 7]
    C7_no_launch [of "(client_world [] Silent)\<lparr>files := Map.empty\<rparr>" "''octo''" "''cat''" 7]
  by (simp add: sample_world_def client_world_def)




text \<open>
  Claim C1 says that a line that does not parse, or parses to a dict with neither
  \<open>error\<close> nor \<open>result\<close>, is logged and the client goes on polling. The code leaves
  the loop at the \<^verbatim>\<open>break\<close> of line 183: here a result line follows the unusable
  line at once, it is never read, and the client returns \<open>False\<close>.
\<close>

theorem C1_counterexample:
  "snd (request_copilot_review
          (client_world [(0, ack_line), (0, garbage_line), (0, result_line)] Silent)
          ''octo'' ''cat'' 7) = Returns False
   \<and> reads (fst (request_copilot_review
          (client_world [(0, ack_line), (0, garbage_line), (0, result_line)] Silent)
          ''octo'' ''cat'' 7)) = [ack_line @ nl, garbage_line @ nl]
   \<and> snd (request_copilot_review
          (client_world [(0, ack_line), (0, notice_line), (0, result_line)] Silent)
          ''octo'' ''cat'' 7) = Returns False
   \<and> reads (fst (request_copilot_review
          (client_world [(0, ack_line), (0, notice_line), (0, result_line)] Silent)
          ''octo'' ''cat'' 7)) = [ack_line @ nl, notice_line @ nl]"
  by (simp add: client_defs poll.simps sample_defs)

text \<open>
  Claim C1, amended: the helper is launched and both requests are written. When the
  first line read in the polling loop does not parse as JSON, or parses to a dict with
  neither \<open>error\<close> nor \<open>result\<close>, the client logs the line and stops polling at
  once: it reads no further line, it does not sleep, and it returns \<open>False\<close>.
\<close>

theorem C1_first_line_ends_wait:
  assumes "environ w ''GITHUB_TOKEN'' = Some tok" and "tok \<noteq> []"
    and "files w (path_join (getcwd w) ''github-mcp-server'') \<noteq> None"
    and "spawn_ok (server w)" and "stdin_ok (server w) 1" and "stdin_ok (server w) 2"
    and "stdout_lines (server w) = (d0, init_response) # (d1, response) # rest"
    and "response \<noteq> []"
    and "json_loads w response = None
         \<or> (\<exists>kvs. json_loads w response = Some (JObj kvs)
               \<and> map_of kvs ''error'' = None \<and> map_of kvs ''result'' = None)"
  shows "snd (request_copilot_review w owner repo n) = Returns False
         \<and> reads (fst (request_copilot_review w owner repo n)) = [init_response, response]
         \<and> Sleep \<notin> set (fst (request_copilot_review w owner repo n))
         \<and> Print (MsgReceived response) \<in> set (fst (request_copilot_review w owner repo n))"
proof -
  note first = client_first_response[OF assms(1-8), of owner repo n]
  have brk: "snd (handle_response (json_loads w) response) = Break"
    using assms(9) handle_response_unparsed[of "json_loads w" response]
      handle_response_obj(3)[of "json_loads w" response]
    by auto
  from first(1) brk have "snd (request_copilot_review w owner repo n) = Returns False" by simp
  with first(2-4) show ?thesis by blast
qed

theorem C1_first_line_ends_wait_witness:
  "snd (request_copilot_review
          (client_world [(0, ack_line), (0, garbage_line), (0, result_line)] (Closed 0))
          ''octo'' ''cat'' 7) = Returns False
   \<and> reads (fst (request_copilot_review
          (client_world [(0, ack_line), (0, garbage_line), (0, result_line)] (Closed 0))
          ''octo'' ''cat'' 7)) = [ack_line @ nl, garbage_line @ nl]
   \<and> snd (request_copilot_review
          (client_world [(0, ack_line), (0, notice_line), (0, result_line)] (Closed 0))
          ''octo'' ''cat'' 7) = Returns False"
  using C1_first_line_ends_wait
      [of "client_world [(0, ack_line), (0, garbage_line), (0, result_line)] (Closed 0)" "''t0ken''"
        0 "ack_line @ nl" 0 "garbage_line @ nl" "[(0, result_line @ nl)]" "''octo''" "''cat''" 7]
    C1_first_line_ends_wait
      [of "client_world [(0, ack_line), (0, notice_line), (0, result_line)] (Closed 0)" "''t0ken''"
        0 "ack_line @ nl" 0 "notice_line @ nl" "[(0, result_line @ nl)]" "''octo''" "''cat''" 7]
  by (simp add: client_world_def token_env_def path_join_def sample_defs)

text \<open>
  Claim C4: whenever the Protocol Client returns after it has launched the subprocess,
  its trace ends with the cleanup of the \<^verbatim>\<open>finally\<close> block: \<^verbatim>\<open>terminate()\<close>,
  the wait of five seconds, and \<^verbatim>\<open>kill()\<close> exactly when the wait timed out. The
  process was running before the cleanup and has exited or been killed after it, and the
  client returns a boolean: no exception leaves it.
\<close>

theorem C4_cleanup:
  assumes run: "request_copilot_review w owner repo n = (tr, out)"
    and returns: "out \<noteq> Hangs"
    and launched: "\<exists>e \<in> set tr. is_popen e"
  shows "(\<exists>pre. process_state pre = Running
            \<and> tr = pre @ (if exits_on_terminate (server w) then [Terminate, Wait True]
                          else [Terminate, Wait False, Kill]))
         \<and> (process_state tr = Exited \<or> process_state tr = Killed)
         \<and> (\<exists>b. out = Returns b)"
proof -
  let ?path = "path_join (getcwd w) ''github-mcp-server''"
  have token: "\<not> (environ w ''GITHUB_TOKEN'' = None \<or> environ w ''GITHUB_TOKEN'' = Some [])"
  proof
    assume "environ w ''GITHUB_TOKEN'' = None \<or> environ w ''GITHUB_TOKEN'' = Some []"
    from client_without_token[OF this, of owner repo n] run
    have "tr = [Print (MsgHeader owner repo n), EnvGet ''GITHUB_TOKEN'', Print MsgNoToken]"
      by simp
    with launched show False by simp
  qed
  then obtain tok where tok: "environ w ''GITHUB_TOKEN'' = Some tok" "tok \<noteq> []" by auto
  have srv: "files w ?path \<noteq> None"
  proof
    assume "files w ?path = None"
    from client_without_server[OF tok this, of owner repo n] run
    have "tr = [Print (MsgHeader owner repo n), EnvGet ''GITHUB_TOKEN'',
       Print MsgCheckingServer, PathExists ?path, Print (MsgServerMissing ?path),
       Print MsgSetupFailed]" by simp
    with launched show False by simp
  qed
  have spawned: "spawn_ok (server w)"
  proof (rule ccontr)
    assume "\<not> spawn_ok (server w)"
    from client_with_server[OF tok srv exchange_not_spawned[OF this], of owner repo n] run
    have "tr = [Print (MsgHeader owner repo n), EnvGet ''GITHUB_TOKEN'',
            Print MsgCheckingServer, PathExists ?path, Print (MsgServerFound ?path),
            EnvCopy, Print MsgStarting, Print (MsgException OSError)]" by simp
    with launched show False by simp
  qed
  from exchange_spawned[OF this, of owner repo n ?path tok]
  obtain rest r where ex: "exchange w owner repo n ?path tok =
           ([EnvCopy, Print MsgStarting, Popen ?path tok] @ rest, True, r)"
    and quiet: "\<And>s. foldl after_event s rest = s" by blast
  define head where "head = [Print (MsgHeader owner repo n), EnvGet ''GITHUB_TOKEN'',
            Print MsgCheckingServer, PathExists ?path, Print (MsgServerFound ?path),
            EnvCopy, Print MsgStarting, Popen ?path tok] @ rest"
  have head_state: "process_state head = Running"
    by (simp add: head_def process_state_def quiet)
  define pre where "pre = (case r of Raises e \<Rightarrow> head @ [Print (MsgException e)] | _ \<Rightarrow> head)"
  have pre_state: "process_state pre = Running"
    using head_state by (cases r) (simp_all add: pre_def process_state_def)
  have "request_copilot_review w owner repo n =
      (case r of
         Hangs \<Rightarrow> (head, Hangs)
       | Raises e \<Rightarrow> (head @ [Print (MsgException e)] @ cleanup (server w), Returns False)
       | Returns b \<Rightarrow> (head @ cleanup (server w), Returns b))"
    unfolding client_with_server[OF tok srv ex] head_def by (cases r) simp_all
  with run have shape: "(tr, out) =
      (case r of
         Hangs \<Rightarrow> (head, Hangs)
       | Raises e \<Rightarrow> (head @ [Print (MsgException e)] @ cleanup (server w), Returns False)
       | Returns b \<Rightarrow> (head @ cleanup (server w), Returns b))" by simp
  have tr: "tr = pre @ cleanup (server w)"
    using shape returns by (cases r) (simp_all add: pre_def)
  have out: "\<exists>b. out = Returns b"
    using shape returns by (cases r) auto
  have final: "process_state tr = Exited \<or> process_state tr = Killed"
    using pre_state by (simp add: tr process_state_def cleanup_def)
  have "tr = pre @ (if exits_on_terminate (server w) then [Terminate, Wait True]
                          else [Terminate, Wait False, Kill])"
    using tr by (simp add: cleanup_def)
  with pre_state final out show ?thesis by blast
qed

theorem C4_cleanup_witness:
  "process_state (fst (request_copilot_review
      (client_world [(0, ack_line), (0, result_line)] Silent) ''octo'' ''cat'' 7)) = Exited
   \<and> process_state (fst (request_copilot_review
      (sample_world token_env [] (sample_helper [(0, ack_line), (0, error_line)] Silent False))
      ''octo'' ''cat'' 7)) = Killed"
proof -
  let ?w1 = "client_world [(0, ack_line), (0, result_line)] Silent"
  let ?w2 = "sample_world token_env [] (sample_helper [(0, ack_line), (0, error_line)] Silent False)"
  have r1: "snd (request_copilot_review ?w1 ''octo'' ''cat'' 7) \<noteq> Hangs"
    and p1: "\<exists>e \<in> set (fst (request_copilot_review ?w1 ''octo'' ''cat'' 7)). is_popen e"
    and r2: "snd (request_copilot_review ?w2 ''octo'' ''cat'' 7) \<noteq> Hangs"
    and p2: "\<exists>e \<in> set (fst (request_copilot_review ?w2 ''octo'' ''cat'' 7)). is_popen e"
    by (simp_all add: client_defs poll.simps sample_defs)
  have x1: "exits_on_terminate (server ?w1)" and x2: "\<not> exits_on_terminate (server ?w2)"
    by (simp_all add: client_world_def sample_world_def sample_helper_def)
  from C4_cleanup[OF prod.collapse[symmetric] r1 p1] x1
  have "process_state (fst (request_copilot_review ?w1 ''octo'' ''cat'' 7)) = Exited"
    by (auto simp add: process_state_def)
  moreover from C4_cleanup[OF prod.collapse[symmetric] r2 p2] x2
  have "process_state (fst (request_copilot_review ?w2 ''octo'' ''cat'' 7)) = Killed"
    by (auto simp add: process_state_def)
  ultimately show ?thesis by simp
qed

text \<open>
  Claim C5 says that a helper that never replies to the review request makes the client
  return \<open>False\<close> when thirty seconds are over. Here the helper acknowledges
  \<^verbatim>\<open>initialize\<close> and then writes nothing while it keeps its output open: the
  \<^verbatim>\<open>readline()\<close> of line 156 blocks, the clock of line 154 is never looked at again,
  and the client does not return; the subprocess is left running.
\<close>

theorem C5_silent_helper_hangs:
  "snd (request_copilot_review (client_world [(0, ack_line)] Silent) ''octo'' ''cat'' 7) = Hangs
   \<and> process_state (fst (request_copilot_review (client_world [(0, ack_line)] Silent)
        ''octo'' ''cat'' 7)) = Running"
  by (simp add: client_defs poll.simps sample_defs)

section \<open>The Entry Point\<close>

text \<open>
  Claim C8 says that the exit status is 0 exactly when the Protocol Client reports
  success, and 1 on every other outcome. The argument parser of line 212 ends the
  process itself: for \<^verbatim>\<open>--help\<close> with status 0, where no client was called, and for
  a command line it does not accept with status 2.
\<close>

theorem C8_counterexample:
  "main (main_world [] []) HelpRequested = ([Print MsgHelp], SysExit 0)
   \<and> exit_code (snd (main (main_world [] []) UsageError)) = Some 2"
  by (simp add: main_def)

text \<open>
  Claim C8, amended: the argument parser ends the process with status 0 for
  \<^verbatim>\<open>--help\<close> and with status 2 for a usage error. For a command line it accepts, the
  exit status is 0 exactly when a target was determined and the Protocol Client returned
  \<open>True\<close> for it. It is 1 when the client returned \<open>False\<close> (an RPC error, a time-out
  that the client reports, a missing token or helper), when no target was resolved (the
  Context Resolver returned the empty result, or an empty owner, an empty repository
  name or the number 0), and when an exception left \<^verbatim>\<open>main\<close>. A target that the
  Context Resolver returns with all three parts non-empty is the one reviewed.
\<close>

theorem C8_exit_code:
  "exit_code (snd (main w HelpRequested)) = Some 0
   \<and> exit_code (snd (main w UsageError)) = Some 2
   \<and> (exit_code (snd (main w (Parsed a))) = Some 0 \<longleftrightarrow>
      (\<exists>owner repo n. snd (target w a) = Inr (Some (owner, repo, n))
         \<and> snd (request_copilot_review w owner repo n) = Returns True))
   \<and> (\<forall>owner repo n. snd (target w a) = Inr (Some (owner, repo, n))
         \<and> snd (request_copilot_review w owner repo n) = Returns False \<longrightarrow>
         exit_code (snd (main w (Parsed a))) = Some 1)
   \<and> (snd (target w a) = Inr None \<longrightarrow> exit_code (snd (main w (Parsed a))) = Some 1)
   \<and> (overrides a = None \<and> snd (get_pull_request_info w) = Inr None \<longrightarrow>
         exit_code (snd (main w (Parsed a))) = Some 1)
   \<and> (\<forall>owner repo n. overrides a = None
         \<and> snd (get_pull_request_info w) = Inr (Some (owner, repo, n))
         \<and> (owner = [] \<or> repo = [] \<or> n = 0) \<longrightarrow>
         snd (target w a) = Inr None \<and> exit_code (snd (main w (Parsed a))) = Some 1)
   \<and> (\<forall>owner repo n. overrides a = None
         \<and> snd (get_pull_request_info w) = Inr (Some (owner, repo, n))
         \<and> owner \<noteq> [] \<and> repo \<noteq> [] \<and> n \<noteq> 0 \<longrightarrow>
         snd (target w a) = Inr (Some (owner, repo, n)))
   \<and> (\<forall>e. snd (target w a) = Inl e \<longrightarrow> exit_code (snd (main w (Parsed a))) = Some 1)"
proof -
  let ?code = "exit_code (snd (main w (Parsed a)))"
  have failed: "?code = Some 1" if "snd (target w a) = Inr None"
    using that by (simp add: main_code)
  have raised: "?code = Some 1" if "snd (target w a) = Inl e" for e
    using that by (simp add: main_code)
  have called: "?code = (case snd (request_copilot_review w owner repo n) of
             Returns b \<Rightarrow> Some (if b then 0 else 1) | Raises e \<Rightarrow> Some 1 | Hangs \<Rightarrow> None)"
    if "snd (target w a) = Inr (Some (owner, repo, n))" for owner repo n
    using that by (simp add: main_code run_review_code)
  have unresolved: "snd (target w a) = Inr None"
    if "overrides a = None \<and> snd (get_pull_request_info w) = Inr None"
    using that
    by (cases "get_pull_request_info w") (simp add: target_def resolve_def)
  have dropped: "snd (target w a) = Inr None"
    if "overrides a = None \<and> snd (get_pull_request_info w) = Inr (Some (owner, repo, n))
        \<and> (owner = [] \<or> repo = [] \<or> n = 0)" for owner repo n
    using that
    by (cases "get_pull_request_info w") (auto simp add: target_def resolve_def)
  have kept: "snd (target w a) = Inr (Some (owner, repo, n))"
    if "overrides a = None \<and> snd (get_pull_request_info w) = Inr (Some (owner, repo, n))
        \<and> owner \<noteq> [] \<and> repo \<noteq> [] \<and> n \<noteq> 0" for owner repo n
    using that
    by (cases "get_pull_request_info w") (auto simp add: target_def resolve_def)
  have shape: "(\<exists>e. snd (target w a) = Inl e) \<or> snd (target w a) = Inr None
               \<or> (\<exists>owner repo n. snd (target w a) = Inr (Some (owner, repo, n)))"
  proof (cases "snd (target w a)")
    case (Inl e)
    then show ?thesis by blast
  next
    case (Inr t)
    then show ?thesis by (cases t) auto
  qed
  have c0: "exit_code (snd (main w HelpRequested)) = Some 0"
    and c0': "exit_code (snd (main w UsageError)) = Some 2"
    by (simp_all add: main_def)
  have c1: "?code = Some 0 \<longleftrightarrow>
      (\<exists>owner repo n. snd (target w a) = Inr (Some (owner, repo, n))
         \<and> snd (request_copilot_review w owner repo n) = Returns True)"
  proof
    assume zero: "?code = Some 0"
    with failed raised shape obtain owner repo n
      where t: "snd (target w a) = Inr (Some (owner, repo, n))" by fastforce
    from called[OF t] zero client_returns_or_hangs[of w owner repo n]
    have "snd (request_copilot_review w owner repo n) = Returns True"
      by (cases "snd (request_copilot_review w owner repo n)") (auto split: if_splits)
    with t show "\<exists>owner repo n. snd (target w a) = Inr (Some (owner, repo, n))
         \<and> snd (request_copilot_review w owner repo n) = Returns True" by blast
  next
    assume "\<exists>owner repo n. snd (target w a) = Inr (Some (owner, repo, n))
         \<and> snd (request_copilot_review w owner repo n) = Returns True"
    then obtain owner repo n where t: "snd (target w a) = Inr (Some (owner, repo, n))"
      and r: "snd (request_copilot_review w owner repo n) = Returns True" by blast
    from called[OF t] r show "?code = Some 0" by simp
  qed
  have c2: "\<forall>owner repo n. snd (target w a) = Inr (Some (owner, repo, n))
         \<and> snd (request_copilot_review w owner repo n) = Returns False \<longrightarrow> ?code = Some 1"
  proof (intro allI impI)
    fix owner repo n
    assume h: "snd (target w a) = Inr (Some (owner, repo, n))
         \<and> snd (request_copilot_review w owner repo n) = Returns False"
    from called[of owner repo n] h show "?code = Some 1" by simp
  qed
  have c3: "snd (target w a) = Inr None \<longrightarrow> ?code = Some 1" using failed by blast
  have c4: "overrides a = None \<and> snd (get_pull_request_info w) = Inr None \<longrightarrow> ?code = Some 1"
    using failed unresolved by blast
  have c5: "\<forall>owner repo n. overrides a = None
         \<and> snd (get_pull_request_info w) = Inr (Some (owner, repo, n))
         \<and> (owner = [] \<or> repo = [] \<or> n = 0) \<longrightarrow>
         snd (target w a) = Inr None \<and> ?code = Some 1"
    using failed dropped by blast
  have c6: "\<forall>owner repo n. overrides a = None
         \<and> snd (get_pull_request_info w) = Inr (Some (owner, repo, n))
         \<and> owner \<noteq> [] \<and> repo \<noteq> [] \<and> n \<noteq> 0 \<longrightarrow>
         snd (target w a) = Inr (Some (owner, repo, n))"
    using kept by blast
  have c7: "\<forall>e. snd (target w a) = Inl e \<longrightarrow> ?code = Some 1" using raised by blast
  from c0 c0' c1 c2 c3 c4 c5 c6 c7 show ?thesis by (intro conjI)
qed

theorem C8_exit_code_witness:
  "exit_code (snd (main (main_world [(''GITHUB_REPOSITORY'', ''octo/cat''), (''PR_NUMBER'', ''7'')]
                          [(0, ack_line), (0, result_line)]) (Parsed no_args))) = Some 0
   \<and> exit_code (snd (main (main_world [(''GITHUB_REPOSITORY'', ''octo/cat''), (''PR_NUMBER'', ''7'')]
                          [(0, ack_line), (0, error_line)]) (Parsed no_args))) = Some 1
   \<and> exit_code (snd (main (main_world [] [(0, ack_line), (0, result_line)]) (Parsed no_args)))
       = Some 1
   \<and> exit_code (snd (main (main_world [(''GITHUB_REPOSITORY'', ''/cat''), (''PR_NUMBER'', ''7'')]
                          [(0, ack_line), (0, result_line)]) (Parsed no_args))) = Some 1"
proof -
  let ?env = "[(''GITHUB_REPOSITORY'', ''octo/cat''), (''PR_NUMBER'', ''7'')]"
  let ?w1 = "main_world ?env [(0, ack_line), (0, result_line)]"
  let ?w2 = "main_world ?env [(0, ack_line), (0, error_line)]"
  let ?w3 = "main_world [] [(0, ack_line), (0, result_line)]"
  let ?w4 = "main_world [(''GITHUB_REPOSITORY'', ''/cat''), (''PR_NUMBER'', ''7'')]
               [(0, ack_line), (0, result_line)]"
  have t1: "snd (target ?w1 no_args) = Inr (Some (''octo'', ''cat'', 7))"
    and t2: "snd (target ?w2 no_args) = Inr (Some (''octo'', ''cat'', 7))"
    and t3: "snd (target ?w3 no_args) = Inr None"
    by (simp_all add: target_def overrides_def no_args_def resolve_def get_pull_request_info_def
        main_world_def token_env_def sample_defs int_defs)
  have o4: "overrides no_args = None"
    and g4: "snd (get_pull_request_info ?w4) = Inr (Some ([], ''cat'', 7))"
    by (simp_all add: overrides_def no_args_def get_pull_request_info_def
        main_world_def token_env_def sample_defs int_defs)
  have r1: "snd (request_copilot_review ?w1 ''octo'' ''cat'' 7) = Returns True"
    and r2: "snd (request_copilot_review ?w2 ''octo'' ''cat'' 7) = Returns False"
    by (simp_all add: client_defs main_world_def poll.simps sample_defs)
  from C8_exit_code[of ?w1 no_args] t1 r1
  have "exit_code (snd (main ?w1 (Parsed no_args))) = Some 0" by blast
  moreover from C8_exit_code[of ?w2 no_args] t2 r2
  have "exit_code (snd (main ?w2 (Parsed no_args))) = Some 1" by blast
  moreover from C8_exit_code[of ?w3 no_args] t3
  have "exit_code (snd (main ?w3 (Parsed no_args))) = Some 1" by blast
  moreover from C8_exit_code[of ?w4 no_args] o4 g4
  have "exit_code (snd (main ?w4 (Parsed no_args))) = Some 1" by blast
  ultimately show ?thesis by simp
qed

text \<open>
  Claim C9 says that three supplied options bypass the Context Resolver. An option
  supplied as the empty string does not count for line 215: with \<^verbatim>\<open>--owner ''\<close>,
  \<^verbatim>\<open>--repo cat\<close>, \<^verbatim>\<open>--pr 7\<close> the Context Resolver is called, the repository variable
  is read, and the target of the environment is reviewed in place of the options.
\<close>

theorem C9_counterexample:
  "EnvGet ''GITHUB_REPOSITORY''
     \<in> set (fst (main (main_world [(''GITHUB_REPOSITORY'', ''acme/site''), (''PR_NUMBER'', ''9'')]
                         [(0, ack_line), (0, result_line)]) (Parsed blank_owner_args)))
   \<and> Send (review_request ''acme'' ''site'' 9)
     \<in> set (fst (main (main_world [(''GITHUB_REPOSITORY'', ''acme/site''), (''PR_NUMBER'', ''9'')]
                         [(0, ack_line), (0, result_line)]) (Parsed blank_owner_args)))"
  by (simp add: main_def target_def overrides_def blank_owner_args_def resolve_def
      get_pull_request_info_def run_review_def client_defs main_world_def poll.simps
      sample_defs int_defs)

text \<open>
  Claim C9, amended: when the three command-line options are given and none of them is
  the empty string, the trace of \<^verbatim>\<open>main\<close> has no read of the three variables of the
  Context Resolver and no file opened; the run is the same in every world that agrees on
  the access token, the working directory, the presence of the helper executable, the
  parser and the helper, whatever the repository, pull-request and event variables and
  the event file are; and the target is the options themselves, the number converted by
  \<^verbatim>\<open>int\<close> (which raises \<^verbatim>\<open>ValueError\<close> when it is not a decimal integer).
\<close>

theorem C9_bypass:
  assumes "arg_owner a = Some owner" and "owner \<noteq> []"
    and "arg_repo a = Some repo" and "repo \<noteq> []"
    and "arg_pr a = Some number" and "number \<noteq> []"
  shows "(\<forall>e \<in> set (fst (main w (Parsed a))). \<not> resolver_event e)
         \<and> (\<forall>w'. environ w' ''GITHUB_TOKEN'' = environ w ''GITHUB_TOKEN''
                \<and> getcwd w' = getcwd w
                \<and> ((files w' (path_join (getcwd w) ''github-mcp-server'') = None)
                     = (files w (path_join (getcwd w) ''github-mcp-server'') = None))
                \<and> json_loads w' = json_loads w
                \<and> server w' = server w \<longrightarrow>
                main w' (Parsed a) = main w (Parsed a))
         \<and> (\<forall>n. int_of_str number = Some n \<longrightarrow> main w (Parsed a) = run_review w owner repo n)
         \<and> (int_of_str number = None \<longrightarrow> main w (Parsed a) = ([], Uncaught ValueError))"
proof -
  have ov: "overrides a = Some (owner, repo, number)"
    using assms by (simp add: overrides_def)
  have tgt: "target v a =
      (case int_of_str number of
         None \<Rightarrow> ([], Inl ValueError)
       | Some n \<Rightarrow> ([], Inr (Some (owner, repo, n))))" for v
    by (simp add: target_def ov)
  have m: "main v (Parsed a) =
      (case int_of_str number of
         None \<Rightarrow> ([], Uncaught ValueError)
       | Some n \<Rightarrow> run_review v owner repo n)" for v
    by (simp add: main_def tgt prepend_def split: option.splits)
  have run_events: "\<not> resolver_event e" if "e \<in> set (fst (run_review w owner repo n))" for e n
  proof -
    obtain tr r where c: "request_copilot_review w owner repo n = (tr, r)"
      by (cases "request_copilot_review w owner repo n") auto
    have "\<And>x. x \<in> set tr \<Longrightarrow> \<not> resolver_event x"
      using client_events[of _ w owner repo n] c by simp
    with that c show ?thesis
      by (cases r) (auto simp add: run_review_def split: if_splits)
  qed
  have a1: "\<forall>e \<in> set (fst (main w (Parsed a))). \<not> resolver_event e"
    using run_events by (auto simp add: m split: option.splits)
  have a2: "\<forall>w'. environ w' ''GITHUB_TOKEN'' = environ w ''GITHUB_TOKEN''
                \<and> getcwd w' = getcwd w
                \<and> ((files w' (path_join (getcwd w) ''github-mcp-server'') = None)
                     = (files w (path_join (getcwd w) ''github-mcp-server'') = None))
                \<and> json_loads w' = json_loads w
                \<and> server w' = server w \<longrightarrow>
                main w' (Parsed a) = main w (Parsed a)"
  proof (intro allI impI)
    fix w' :: world
    assume same: "environ w' ''GITHUB_TOKEN'' = environ w ''GITHUB_TOKEN''
                \<and> getcwd w' = getcwd w
                \<and> ((files w' (path_join (getcwd w) ''github-mcp-server'') = None)
                     = (files w (path_join (getcwd w) ''github-mcp-server'') = None))
                \<and> json_loads w' = json_loads w
                \<and> server w' = server w"
    have "request_copilot_review w' owner repo n = request_copilot_review w owner repo n" for n
      using same by (intro client_inputs) simp_all
    then have "run_review w' owner repo n = run_review w owner repo n" for n
      by (simp add: run_review_def)
    then show "main w' (Parsed a) = main w (Parsed a)" by (simp add: m split: option.splits)
  qed
  have a3: "\<forall>n. int_of_str number = Some n \<longrightarrow> main w (Parsed a) = run_review w owner repo n"
    by (simp add: m)
  have a4: "int_of_str number = None \<longrightarrow> main w (Parsed a) = ([], Uncaught ValueError)"
    by (simp add: m)
  from a1 a2 a3 a4 show ?thesis by (intro conjI)
qed

theorem C9_bypass_witness:
  "main (main_world [(''GITHUB_REPOSITORY'', ''nobody''), (''PR_NUMBER'', ''abc''),
                     (''GITHUB_EVENT_PATH'', ''/event.json'')] [(0, ack_line), (0, result_line)])
        (Parsed cli_args)
   = main (main_world [] [(0, ack_line), (0, result_line)]) (Parsed cli_args)
   \<and> main (main_world [] [(0, ack_line), (0, result_line)]) (Parsed cli_args)
   = run_review (main_world [] [(0, ack_line), (0, result_line)]) ''octo'' ''cat'' 7"
  using C9_bypass [of cli_args "''octo''" "''cat''" "''7''"
      "main_world [] [(0, ack_line), (0, result_line)]", THEN conjunct2, THEN conjunct1, rule_format,
      of "main_world [(''GITHUB_REPOSITORY'', ''nobody''), (''PR_NUMBER'', ''abc''),
                     (''GITHUB_EVENT_PATH'', ''/event.json'')] [(0, ack_line), (0, result_line)]"]
    C9_bypass [of cli_args "''octo''" "''cat''" "''7''"
      "main_world [] [(0, ack_line), (0, result_line)]", THEN conjunct2, THEN conjunct2,
      THEN conjunct1, rule_format, of 7]
  by (simp add: cli_args_def main_world_def token_env_def sample_world_def sample_helper_def
      int_defs)

end
